theory Spec2Isabelle
  imports Main
begin

section \<open>Membership purchase reconciliation (stripe.controller.ts)\<close>

text \<open>
  The development embeds the three request handlers of the Stripe controller
  (\<^verbatim>\<open>createCheckoutSession\<close>, \<^verbatim>\<open>handleWebhook\<close>, \<^verbatim>\<open>verifySession\<close>), the role-rank
  table and the plan registry. The database and the gateway are explicit: every
  \<^verbatim>\<open>await\<close> of the source is one atomic step of a resumption, so the same definition
  gives a handler's sequential run and its interleavings with other requests.
\<close>

subsection \<open>Roles and ranks\<close>

datatype Role = USER | USER_BRONZE | USER_GOLD | USER_PLATINUM | TRAINER | ADMIN

fun ROLE_RANK :: "Role \<Rightarrow> nat" where
  "ROLE_RANK USER = 0"
| "ROLE_RANK USER_BRONZE = 1"
| "ROLE_RANK USER_GOLD = 2"
| "ROLE_RANK USER_PLATINUM = 3"
| "ROLE_RANK TRAINER = 99"
| "ROLE_RANK ADMIN = 100"

subsection \<open>Plan registry (constants/stripePlans.ts)\<close>

record Plan =
  plan_role :: Role
  plan_amount :: int
  plan_currency :: string
  plan_label :: string

text \<open>The table is an object literal; its entries are kept in insertion order, which is
  the order \<^verbatim>\<open>Object.values\<close> enumerates them in.\<close>

definition STRIPE_PRICE_TO_PLAN :: "(string \<times> Plan) list" where
  "STRIPE_PRICE_TO_PLAN =
     [(''price_1SHi6U3JFtC2WMSKhAQeq9c8'',
         \<lparr>plan_role = USER_BRONZE, plan_amount = 49900, plan_currency = ''THB'',
          plan_label = ''Bronze 499''\<rparr>),
      (''price_1SHi5X3JFtC2WMSKqqCbjHoV'',
         \<lparr>plan_role = USER_GOLD, plan_amount = 129900, plan_currency = ''THB'',
          plan_label = ''Gold 1299''\<rparr>),
      (''price_1SHi7b3JFtC2WMSKRkKDIGL0'',
         \<lparr>plan_role = USER_PLATINUM, plan_amount = 299900, plan_currency = ''THB'',
          plan_label = ''Platinum 2999''\<rparr>)]"

text \<open>\<^verbatim>\<open>STRIPE_PRICE_TO_PLAN[priceId]\<close> (line 185) reads a property of that object. A
  listed price gives its plan. A name that every object inherits from
  \<^verbatim>\<open>Object.prototype\<close> gives a function (for \<^verbatim>\<open>__proto__\<close> the prototype itself):
  a truthy value whose \<^verbatim>\<open>role\<close>, \<^verbatim>\<open>amount\<close> and \<^verbatim>\<open>currency\<close> are
  \<^verbatim>\<open>undefined\<close>. Any other key gives \<^verbatim>\<open>undefined\<close>.\<close>

definition Object_prototype_keys :: "string list" where
  "Object_prototype_keys =
     [''constructor'', ''__defineGetter__'', ''__defineSetter__'', ''hasOwnProperty'',
      ''__lookupGetter__'', ''__lookupSetter__'', ''isPrototypeOf'', ''propertyIsEnumerable'',
      ''toString'', ''valueOf'', ''__proto__'', ''toLocaleString'']"

datatype PlanLookup = OwnPlan Plan | Inherited | Absent

definition plan_lookup :: "string \<Rightarrow> PlanLookup" where
  "plan_lookup priceId =
     (case map_of STRIPE_PRICE_TO_PLAN priceId of
        Some plan \<Rightarrow> OwnPlan plan
      | None \<Rightarrow> if priceId \<in> set Object_prototype_keys then Inherited else Absent)"

subsection \<open>Stored rows\<close>

text \<open>The status column is the database enum of the \<^verbatim>\<open>MembershipPurchase\<close> table; the
  controller's own \<^verbatim>\<open>PaymentStatus\<close> enum names two of its values.\<close>

datatype PaymentStatus = PENDING | PAID | FAILED | CANCELED

text \<open>Users are keyed by their integer id; the key is the row's \<^verbatim>\<open>id\<close> column.\<close>

record User =
  role :: Role
  email :: string

text \<open>The timestamp columns are not read by the controller and are left out.\<close>

record MembershipPurchase =
  purchase_id :: string
  userId :: int
  targetRole :: Role
  status :: PaymentStatus
  amount :: "int option"
  currency :: "string option"
  gateway :: "string option"
  externalId :: "string option"

text \<open>The \<^verbatim>\<open>data\<close> argument of \<^verbatim>\<open>membershipPurchase.update\<close>: a field that is absent or
  \<^verbatim>\<open>undefined\<close> is \<open>None\<close> and leaves the column as it is.\<close>

record PurchaseUpdateData =
  data_status :: "PaymentStatus option"
  data_amount :: "int option"
  data_currency :: "string option"
  data_externalId :: "string option"
  data_gateway :: "string option"

definition apply_data :: "PurchaseUpdateData \<Rightarrow> MembershipPurchase \<Rightarrow> MembershipPurchase" where
  "apply_data d p =
     p\<lparr>status := (case data_status d of None \<Rightarrow> status p | Some s \<Rightarrow> s),
       amount := (case data_amount d of None \<Rightarrow> amount p | Some a \<Rightarrow> Some a),
       currency := (case data_currency d of None \<Rightarrow> currency p | Some c \<Rightarrow> Some c),
       externalId := (case data_externalId d of None \<Rightarrow> externalId p | Some e \<Rightarrow> Some e),
       gateway := (case data_gateway d of None \<Rightarrow> gateway p | Some g \<Rightarrow> Some g)\<rparr>"

subsection \<open>Gateway objects\<close>

datatype StripePaymentStatus = Paid | Unpaid | NoPaymentRequired

datatype StripeSessionStatus = Open | Complete | Expired

text \<open>A checkout session as the controller reads it. \<open>meta_purchaseId\<close> and
  \<open>meta_targetRole\<close> are \<^verbatim>\<open>session.metadata?.purchaseId\<close> and
  \<^verbatim>\<open>session.metadata?.targetRole\<close> (\<open>None\<close> when the metadata or the key is missing);
  the source casts the latter to \<^verbatim>\<open>Role | undefined\<close>, the type it has here.\<close>

record CheckoutSession =
  session_id :: string
  session_url :: "string option"
  payment_status :: StripePaymentStatus
  session_status :: "StripeSessionStatus option"
  amount_total :: "int option"
  session_currency :: "string option"
  meta_purchaseId :: "string option"
  meta_targetRole :: "Role option"

record StripeEvent =
  event_type :: string
  data_object :: CheckoutSession

text \<open>The request of \<^verbatim>\<open>stripe.checkout.sessions.create\<close>; \<open>metadata_userId\<close> is sent as
  the decimal string of the id.\<close>

record SessionCreateParams =
  line_item_price :: string
  success_url :: string
  cancel_url :: string
  metadata_purchaseId :: string
  metadata_userId :: int
  metadata_targetRole :: Role

text \<open>What the process is given: the \<^verbatim>\<open>CLIENT_URL\<close> variable and the gateway's answers
  (\<open>Inl\<close> is the message of the exception the call throws).\<close>

record Env =
  CLIENT_URL :: "string option"
  sessions_create :: "SessionCreateParams \<Rightarrow> string + CheckoutSession"
  sessions_retrieve :: "string \<Rightarrow> string + CheckoutSession"

subsection \<open>The world: store, effect trace and console\<close>

datatype Effect =
    PurchaseCreate MembershipPurchase
  | PurchaseUpdate string PurchaseUpdateData
  | UserUpdate int Role
  | StripeSessionCreate SessionCreateParams

datatype Console =
    Error_checkout string
  | Error_webhook_verify string
  | Warn_missing_metadata
  | Warn_amount_mismatch int int
  | Warn_currency_mismatch string string
  | Log_upgraded int Role
  | Log_skip_role_update
  | Error_webhook_handler string
  | Error_verify string

text \<open>\<open>trace\<close> lists, in order, every write sent to the database and every session
  requested from the gateway; reads leave no trace.\<close>

record World =
  users :: "int \<rightharpoonup> User"
  purchases :: "MembershipPurchase list"
  trace :: "Effect list"
  console :: "Console list"

subsection \<open>Responses\<close>

record VerifyBody =
  body_sessionId :: string
  body_payment_status :: StripePaymentStatus
  body_amount_total :: "int option"
  body_currency :: "string option"
  body_purchase :: "(string \<times> PaymentStatus \<times> Role) option"
  body_user :: "User option"
  didMarkPaid :: bool
  didUpgrade :: bool
  upgradedTo :: "Role option"

datatype Response =
    Json_error nat string
  | Send_text nat string
  | Json_received
  | Json_checkout "string option" string string
  | Json_verify VerifyBody

subsection \<open>Handlers as resumptions\<close>

text \<open>\<open>Await u k\<close> is one awaited call: it runs atomically, changing the world by \<open>u\<close>, and
  the handler goes on as \<open>k\<close> of the world the call saw.\<close>

datatype 'a Prog = Done 'a | Await "World \<Rightarrow> World" "World \<Rightarrow> 'a Prog"

primrec run :: "'a Prog \<Rightarrow> World \<Rightarrow> 'a \<times> World" where
  "run (Done r) = (\<lambda>w. (r, w))"
| "run (Await u k) = (\<lambda>w. run (k w) (u w))"

definition find_purchase_by_id :: "string \<Rightarrow> MembershipPurchase list \<Rightarrow> MembershipPurchase option" where
  "find_purchase_by_id i ps = find (\<lambda>p. purchase_id p = i) ps"

definition find_purchase_by_externalId :: "string \<Rightarrow> MembershipPurchase list \<Rightarrow> MembershipPurchase option" where
  "find_purchase_by_externalId e ps = find (\<lambda>p. externalId p = Some e) ps"

definition prisma_user_findUnique :: "int \<Rightarrow> (User option \<Rightarrow> 'a Prog) \<Rightarrow> 'a Prog" where
  "prisma_user_findUnique uid k = Await (\<lambda>w. w) (\<lambda>w. k (users w uid))"

text \<open>\<^verbatim>\<open>update\<close> throws when no row has the key; \<open>err\<close> is the enclosing \<^verbatim>\<open>catch\<close>.\<close>

definition prisma_user_update :: "int \<Rightarrow> Role \<Rightarrow> (string \<Rightarrow> 'a Prog) \<Rightarrow> 'a Prog \<Rightarrow> 'a Prog" where
  "prisma_user_update uid r err k =
     Await (\<lambda>w. case users w uid of
                  None \<Rightarrow> w
                | Some u \<Rightarrow> w\<lparr>users := (users w)(uid \<mapsto> u\<lparr>role := r\<rparr>),
                              trace := trace w @ [UserUpdate uid r]\<rparr>)
           (\<lambda>w. case users w uid of
                  None \<Rightarrow> err ''Record to update not found.''
                | Some u \<Rightarrow> k)"

definition prisma_purchase_findUnique ::
    "string \<Rightarrow> (MembershipPurchase option \<Rightarrow> 'a Prog) \<Rightarrow> 'a Prog" where
  "prisma_purchase_findUnique i k = Await (\<lambda>w. w) (\<lambda>w. k (find_purchase_by_id i (purchases w)))"

definition prisma_purchase_findFirst_externalId ::
    "string \<Rightarrow> (MembershipPurchase option \<Rightarrow> 'a Prog) \<Rightarrow> 'a Prog" where
  "prisma_purchase_findFirst_externalId e k =
     Await (\<lambda>w. w) (\<lambda>w. k (find_purchase_by_externalId e (purchases w)))"

text \<open>\<^verbatim>\<open>create\<close> throws on a primary key that is already taken.\<close>

definition prisma_purchase_create ::
    "MembershipPurchase \<Rightarrow> (string \<Rightarrow> 'a Prog) \<Rightarrow> (MembershipPurchase \<Rightarrow> 'a Prog) \<Rightarrow> 'a Prog" where
  "prisma_purchase_create row err k =
     Await (\<lambda>w. case find_purchase_by_id (purchase_id row) (purchases w) of
                  None \<Rightarrow> w\<lparr>purchases := purchases w @ [row],
                            trace := trace w @ [PurchaseCreate row]\<rparr>
                | Some _ \<Rightarrow> w)
           (\<lambda>w. case find_purchase_by_id (purchase_id row) (purchases w) of
                  None \<Rightarrow> k row
                | Some _ \<Rightarrow> err ''Unique constraint failed on the fields: (`id`)'')"

text \<open>\<^verbatim>\<open>create\<close> with \<^verbatim>\<open>targetRole: undefined\<close> in its data: the column is required and
  has no default, so the client refuses the call and the promise rejects; nothing is
  sent to the database.\<close>

definition prisma_purchase_create_refused :: "(string \<Rightarrow> 'a Prog) \<Rightarrow> 'a Prog" where
  "prisma_purchase_create_refused err =
     Await (\<lambda>w. w) (\<lambda>w. err ''Argument targetRole is missing.'')"

definition prisma_purchase_update ::
    "string \<Rightarrow> PurchaseUpdateData \<Rightarrow> (string \<Rightarrow> 'a Prog) \<Rightarrow> (MembershipPurchase \<Rightarrow> 'a Prog) \<Rightarrow> 'a Prog" where
  "prisma_purchase_update i d err k =
     Await (\<lambda>w. case find_purchase_by_id i (purchases w) of
                  None \<Rightarrow> w
                | Some _ \<Rightarrow> w\<lparr>purchases := map (\<lambda>q. if purchase_id q = i then apply_data d q else q)
                                                (purchases w),
                              trace := trace w @ [PurchaseUpdate i d]\<rparr>)
           (\<lambda>w. case find_purchase_by_id i (purchases w) of
                  None \<Rightarrow> err ''Record to update not found.''
                | Some p \<Rightarrow> k (apply_data d p))"

definition stripe_checkout_sessions_create ::
    "Env \<Rightarrow> SessionCreateParams \<Rightarrow> (string \<Rightarrow> 'a Prog) \<Rightarrow> (CheckoutSession \<Rightarrow> 'a Prog) \<Rightarrow> 'a Prog" where
  "stripe_checkout_sessions_create env params err k =
     Await (\<lambda>w. w\<lparr>trace := trace w @ [StripeSessionCreate params]\<rparr>)
           (\<lambda>w. case sessions_create env params of Inl m \<Rightarrow> err m | Inr s \<Rightarrow> k s)"

definition stripe_checkout_sessions_retrieve ::
    "Env \<Rightarrow> string \<Rightarrow> (string \<Rightarrow> 'a Prog) \<Rightarrow> (CheckoutSession \<Rightarrow> 'a Prog) \<Rightarrow> 'a Prog" where
  "stripe_checkout_sessions_retrieve env sid err k =
     Await (\<lambda>w. w) (\<lambda>w. case sessions_retrieve env sid of Inl m \<Rightarrow> err m | Inr s \<Rightarrow> k s)"

text \<open>A console line is written between two awaited calls; it is a step of its own
  here, one that touches nothing but the console.\<close>

definition console_out :: "Console \<Rightarrow> 'a Prog \<Rightarrow> 'a Prog" where
  "console_out line k = Await (\<lambda>w. w\<lparr>console := console w @ [line]\<rparr>) (\<lambda>w. k)"

definition console_lines :: "Console list \<Rightarrow> 'a Prog \<Rightarrow> 'a Prog" where
  "console_lines ls k = foldr console_out ls k"

subsection \<open>JavaScript helpers\<close>

text \<open>\<^verbatim>\<open>a || b\<close> on strings: \<^verbatim>\<open>null\<close>, \<^verbatim>\<open>undefined\<close> and the empty string are falsy.\<close>

definition str_or :: "string option \<Rightarrow> string \<Rightarrow> string" where
  "str_or a b = (case a of None \<Rightarrow> b | Some s \<Rightarrow> if s = [] then b else s)"

definition truthy_str :: "string option \<Rightarrow> string option" where
  "truthy_str a = (case a of None \<Rightarrow> None | Some s \<Rightarrow> if s = [] then None else Some s)"

text \<open>A destructuring default (\<^verbatim>\<open>successPath = "/success"\<close>) applies when the key is missing.\<close>

definition default_to :: "'a \<Rightarrow> 'a option \<Rightarrow> 'a" where
  "default_to d a = (case a of None \<Rightarrow> d | Some v \<Rightarrow> v)"

text \<open>\<^verbatim>\<open>toUpperCase\<close> on the ASCII letters, which currency codes are made of: a letter
  from \<^verbatim>\<open>a\<close> (97) to \<^verbatim>\<open>z\<close> (122) loses 32, which is its sixth bit; every other
  character stays.\<close>

definition toUpperCase :: "string \<Rightarrow> string" where
  "toUpperCase s =
     map (\<lambda>c. let n = (of_char c :: nat) in
               if 97 \<le> n \<and> n \<le> 122
               then (case c of Char b0 b1 b2 b3 b4 b5 b6 b7 \<Rightarrow> Char b0 b1 b2 b3 b4 False b6 b7)
               else c) s"

subsection \<open>The role-rank comparison at its three call sites\<close>

text \<open>Line 191 (\<^verbatim>\<open>ROLE_RANK[plan.role] <= ROLE_RANK[user.role]\<close>), line 287
  (\<^verbatim>\<open>ROLE_RANK[targetRole] > ROLE_RANK[user.role]\<close>) and line 355
  (\<^verbatim>\<open>ROLE_RANK[purchase.targetRole] > ROLE_RANK[user.role]\<close>); the handlers below
  decide by these three.\<close>

definition checkout_rejects :: "Role \<Rightarrow> Role \<Rightarrow> bool" where
  "checkout_rejects current target = (ROLE_RANK target \<le> ROLE_RANK current)"

definition webhook_upgrades :: "Role \<Rightarrow> Role \<Rightarrow> bool" where
  "webhook_upgrades current target = (ROLE_RANK target > ROLE_RANK current)"

definition verify_upgrades :: "Role \<Rightarrow> Role \<Rightarrow> bool" where
  "verify_upgrades current target = (ROLE_RANK target > ROLE_RANK current)"

subsection \<open>createCheckoutSession\<close>

text \<open>The request body, typed as line 178 documents it (\<^verbatim>\<open>userId: number\<close>, an integer
  as user ids are, and \<^verbatim>\<open>priceId: string\<close>). \<open>body_userId\<close> is \<open>None\<close> when the key is
  missing; \<^verbatim>\<open>!userId\<close> also rejects the number 0 and \<^verbatim>\<open>!priceId\<close> the empty string.\<close>

record CheckoutBody =
  body_userId :: "int option"
  body_priceId :: "string option"
  body_successPath :: "string option"
  body_cancelPath :: "string option"

text \<open>The row of lines 197 to 204; \<open>newId\<close> is the key the database client generates
  for it.\<close>

definition new_purchase :: "string \<Rightarrow> int \<Rightarrow> Plan \<Rightarrow> MembershipPurchase" where
  "new_purchase newId uid plan =
     \<lparr>purchase_id = newId, userId = uid, targetRole = plan_role plan, status = PENDING,
      amount = Some (plan_amount plan), currency = Some (plan_currency plan),
      gateway = Some ''stripe'', externalId = None\<rparr>"

text \<open>The session request of lines 207 to 219.\<close>

definition session_params ::
    "Env \<Rightarrow> CheckoutBody \<Rightarrow> string \<Rightarrow> MembershipPurchase \<Rightarrow> int \<Rightarrow> Plan \<Rightarrow> SessionCreateParams" where
  "session_params env body priceId purchase uid plan =
     (let successPath = default_to ''/success'' (body_successPath body);
          cancelPath = default_to ''/cancel'' (body_cancelPath body);
          origin = str_or (CLIENT_URL env) ''http://127.0.0.1:3000''
      in \<lparr>line_item_price = priceId,
          success_url = origin @ successPath @ ''?session_id={CHECKOUT_SESSION_ID}'',
          cancel_url = origin @ cancelPath,
          metadata_purchaseId = purchase_id purchase,
          metadata_userId = uid,
          metadata_targetRole = plan_role plan\<rparr>)"

text \<open>The \<^verbatim>\<open>data\<close> of line 224.\<close>

definition link_data :: "CheckoutSession \<Rightarrow> PurchaseUpdateData" where
  "link_data session =
     \<lparr>data_status = None, data_amount = None, data_currency = None,
      data_externalId = Some (session_id session), data_gateway = None\<rparr>"

definition createCheckoutSession :: "Env \<Rightarrow> string \<Rightarrow> CheckoutBody \<Rightarrow> Response Prog" where
  "createCheckoutSession env newId body =
    (let catch = (\<lambda>msg. console_out (Error_checkout msg) (Done (Json_error 500 msg))) in
     case body_userId body of
       None \<Rightarrow> Done (Json_error 400 ''userId required'')
     | Some uid \<Rightarrow>
       if uid = 0 then Done (Json_error 400 ''userId required'')
       else
       (case truthy_str (body_priceId body) of
          None \<Rightarrow> Done (Json_error 400 ''priceId required'')
        | Some priceId \<Rightarrow>
          (case plan_lookup priceId of
             Absent \<Rightarrow> Done (Json_error 400 ''invalid priceId'')
           | Inherited \<Rightarrow>
             \<comment> \<open>\<^verbatim>\<open>plan.role\<close> is \<^verbatim>\<open>undefined\<close>: the comparison of line 191 is false
                 and the \<^verbatim>\<open>create\<close> of line 196 is refused\<close>
             prisma_user_findUnique uid (\<lambda>found.
               case found of
                 None \<Rightarrow> Done (Json_error 404 ''user not found'')
               | Some user \<Rightarrow> prisma_purchase_create_refused catch)
           | OwnPlan plan \<Rightarrow>
             prisma_user_findUnique uid (\<lambda>found.
               case found of
                 None \<Rightarrow> Done (Json_error 404 ''user not found'')
               | Some user \<Rightarrow>
                 if checkout_rejects (role user) (plan_role plan)
                 then Done (Json_error 409 ''already has equal or higher role'')
                 else
                 prisma_purchase_create (new_purchase newId uid plan) catch (\<lambda>purchase.
                 stripe_checkout_sessions_create env
                   (session_params env body priceId purchase uid plan) catch (\<lambda>session.
                 prisma_purchase_update (purchase_id purchase) (link_data session) catch (\<lambda>_.
                 Done (Json_checkout (session_url session) (session_id session)
                         (purchase_id purchase)))))))))"

subsection \<open>handleWebhook\<close>

text \<open>Lines 263 to 272: the plan of the target role is looked up and the reported amount
  and currency are compared with it; a difference writes a warning and does nothing
  else. \<open>cross_check\<close> is the list of warnings written.\<close>

definition cross_check :: "CheckoutSession \<Rightarrow> Role \<Rightarrow> Console list" where
  "cross_check session tRole =
     (case find (\<lambda>p. plan_role p = tRole) (map snd STRIPE_PRICE_TO_PLAN) of
        None \<Rightarrow> []
      | Some plan \<Rightarrow>
          (case amount_total session of
             None \<Rightarrow> []
           | Some got \<Rightarrow>
               if got \<noteq> plan_amount plan
               then [Warn_amount_mismatch got (plan_amount plan)]
               else [])
          @
          (case truthy_str (session_currency session) of
             None \<Rightarrow> []
           | Some cur \<Rightarrow>
               if toUpperCase cur \<noteq> toUpperCase (plan_currency plan)
               then [Warn_currency_mismatch cur (plan_currency plan)]
               else []))"

text \<open>The \<^verbatim>\<open>data\<close> of the settling update, shared by lines 277 to 282 and 343 to 349
  (the latter adds the gateway tag).\<close>

definition paid_data :: "CheckoutSession \<Rightarrow> MembershipPurchase \<Rightarrow> string option \<Rightarrow> PurchaseUpdateData" where
  "paid_data session purchase gw =
     \<lparr>data_status = Some PAID,
      data_amount = (case amount_total session of Some a \<Rightarrow> Some a | None \<Rightarrow> amount purchase),
      data_currency =
        Some (toUpperCase (str_or (session_currency session) (str_or (currency purchase) ''THB''))),
      data_externalId = Some (session_id session),
      data_gateway = gw\<rparr>"

text \<open>The argument is what \<^verbatim>\<open>stripe.webhooks.constructEvent\<close> gives for the request:
  the verified event, or the message of the signature error.\<close>

definition handleWebhook :: "string + StripeEvent \<Rightarrow> Response Prog" where
  "handleWebhook constructed =
    (case constructed of
       Inl msg \<Rightarrow>
         console_out (Error_webhook_verify msg) (Done (Send_text 400 (''Webhook Error: '' @ msg)))
     | Inr event \<Rightarrow>
       (let catch = (\<lambda>msg. console_out (Error_webhook_handler msg)
                             (Done (Json_error 500 ''Webhook handler failed'')))
        in
        if event_type event = ''checkout.session.completed'' then
          (let session = data_object event in
           case (truthy_str (meta_purchaseId session), meta_targetRole session) of
             (Some purchaseId, Some tRole) \<Rightarrow>
               prisma_purchase_findUnique purchaseId (\<lambda>found.
                 case found of
                   None \<Rightarrow> Done Json_received
                 | Some purchase \<Rightarrow>
                   if status purchase = PAID then Done Json_received
                   else
                   console_lines (cross_check session tRole) (
                   prisma_purchase_update (purchase_id purchase)
                     (paid_data session purchase None) catch (\<lambda>_.
                   prisma_user_findUnique (userId purchase) (\<lambda>user.
                     case user of
                       Some u \<Rightarrow>
                         if webhook_upgrades (role u) tRole
                         then prisma_user_update (userId purchase) tRole catch
                                (console_out (Log_upgraded (userId purchase) tRole)
                                   (Done Json_received))
                         else console_out Log_skip_role_update (Done Json_received)
                     | None \<Rightarrow> console_out Log_skip_role_update (Done Json_received)))))
           | _ \<Rightarrow> console_out Warn_missing_metadata (Done Json_received))
        else Done Json_received))"

subsection \<open>verifySession\<close>

text \<open>The argument is the \<^verbatim>\<open>session_id\<close> query parameter, \<open>None\<close> when it is missing.\<close>

definition verify_find_purchase ::
    "CheckoutSession \<Rightarrow> (MembershipPurchase option \<Rightarrow> 'a Prog) \<Rightarrow> 'a Prog" where
  \<comment> \<open>lines 319 to 327\<close>
  "verify_find_purchase session k =
     prisma_purchase_findFirst_externalId (session_id session) (\<lambda>byExternalId.
       case byExternalId of
         Some p \<Rightarrow> k (Some p)
       | None \<Rightarrow>
           (case truthy_str (meta_purchaseId session) of
              Some i \<Rightarrow> prisma_purchase_findUnique i k
            | None \<Rightarrow> k None))"

definition verify_find_user ::
    "MembershipPurchase option \<Rightarrow> (User option \<Rightarrow> 'a Prog) \<Rightarrow> 'a Prog" where
  \<comment> \<open>lines 329 to 331, and again lines 366 to 370\<close>
  "verify_find_user purchase k =
     (case purchase of
        Some p \<Rightarrow> prisma_user_findUnique (userId p) k
      | None \<Rightarrow> k None)"

text \<open>The continuation takes the four variables the block assigns: \<^verbatim>\<open>purchase\<close>,
  \<^verbatim>\<open>didMarkPaid\<close>, \<^verbatim>\<open>didUpgrade\<close> and \<^verbatim>\<open>upgradedTo\<close>.\<close>

definition verify_settle ::
    "(string \<Rightarrow> 'a Prog) \<Rightarrow> CheckoutSession \<Rightarrow> bool \<Rightarrow> MembershipPurchase option \<Rightarrow> User option
       \<Rightarrow> (MembershipPurchase option \<Rightarrow> bool \<Rightarrow> bool \<Rightarrow> Role option \<Rightarrow> 'a Prog) \<Rightarrow> 'a Prog" where
  \<comment> \<open>lines 334 to 363\<close>
  "verify_settle catch session isPaid purchase user k =
     (case (purchase, user) of
        (Some p, Some u) \<Rightarrow>
          if isPaid then
            (if status p \<noteq> PAID
             then (\<lambda>k'. prisma_purchase_update (purchase_id p)
                           (paid_data session p (Some ''stripe'')) catch (\<lambda>p'. k' p' True))
             else (\<lambda>k'. k' p False)) (\<lambda>p' marked.
            if verify_upgrades (role u) (targetRole p')
            then prisma_user_update (userId p) (targetRole p') catch
                   (k (Some p') marked True (Some (targetRole p')))
            else k (Some p') marked False None)
          else k purchase False False None
      | _ \<Rightarrow> k purchase False False None)"

definition verify_body ::
    "CheckoutSession \<Rightarrow> MembershipPurchase option \<Rightarrow> User option \<Rightarrow> bool \<Rightarrow> bool \<Rightarrow> Role option
       \<Rightarrow> VerifyBody" where
  \<comment> \<open>lines 373 to 392\<close>
  "verify_body session purchase user marked upgraded upTo =
     \<lparr>body_sessionId = session_id session,
      body_payment_status = payment_status session,
      body_amount_total = amount_total session,
      body_currency = map_option toUpperCase (session_currency session),
      body_purchase = map_option (\<lambda>p. (purchase_id p, status p, targetRole p)) purchase,
      body_user = user,
      didMarkPaid = marked,
      didUpgrade = upgraded,
      upgradedTo = upTo\<rparr>"

definition verifySession :: "Env \<Rightarrow> string option \<Rightarrow> Response Prog" where
  "verifySession env query_session_id =
    (let catch = (\<lambda>msg. console_out (Error_verify msg)
                          (Done (Json_error 500 (str_or (Some msg) ''verify failed''))));
         sessionId = str_or query_session_id []
     in
     if sessionId = [] then Done (Json_error 400 ''session_id required'')
     else
     stripe_checkout_sessions_retrieve env sessionId catch (\<lambda>session.
     let isPaid = (payment_status session = Paid \<or> session_status session = Some Complete) in
     verify_find_purchase session (\<lambda>purchase0.
     verify_find_user purchase0 (\<lambda>user0.
     verify_settle catch session isPaid purchase0 user0 (\<lambda>purchase marked upgraded upTo.
     verify_find_user purchase (\<lambda>user.
     Done (Json_verify (verify_body session purchase user marked upgraded upTo))))))))"

subsection \<open>Which purchase a handler settles\<close>

text \<open>Lines 251 to 259: the webhook needs both metadata keys and looks the purchase up
  by the id in the metadata.\<close>

definition webhook_resolve :: "CheckoutSession \<Rightarrow> MembershipPurchase list \<Rightarrow> MembershipPurchase option" where
  "webhook_resolve session ps =
     (case (truthy_str (meta_purchaseId session), meta_targetRole session) of
        (Some purchaseId, Some tRole) \<Rightarrow> find_purchase_by_id purchaseId ps
      | _ \<Rightarrow> None)"

text \<open>Lines 319 to 327: the verify endpoint looks for the session id among the external
  ids first and falls back to the id in the metadata.\<close>

definition verify_resolve :: "CheckoutSession \<Rightarrow> MembershipPurchase list \<Rightarrow> MembershipPurchase option" where
  "verify_resolve session ps =
     (case find_purchase_by_externalId (session_id session) ps of
        Some p \<Rightarrow> Some p
      | None \<Rightarrow>
          (case truthy_str (meta_purchaseId session) of
             Some i \<Rightarrow> find_purchase_by_id i ps
           | None \<Rightarrow> None))"

text \<open>What the controller's own writes make true of a store and a session the gateway
  can deliver. Lines 196 to 225 put the new row's id and the plan's role into the
  session's metadata and the session's id into that row's \<^verbatim>\<open>externalId\<close>; lines 281
  and 347 write a session's id only on the row that session resolves to; nothing
  updates \<^verbatim>\<open>targetRole\<close>; the id is the primary key. So a row that carries the
  session's id is the row the metadata name, and the row the metadata name has the
  metadata's target role. A session this controller did not request is the external
  id of no row, and its metadata name none.\<close>

definition linked :: "CheckoutSession \<Rightarrow> MembershipPurchase list \<Rightarrow> bool" where
  "linked s ps \<longleftrightarrow>
     distinct (map purchase_id ps)
     \<and> (\<forall>p \<in> set ps. externalId p = Some (session_id s)
           \<longrightarrow> truthy_str (meta_purchaseId s) = Some (purchase_id p))
     \<and> (\<forall>p \<in> set ps. truthy_str (meta_purchaseId s) = Some (purchase_id p)
           \<longrightarrow> meta_targetRole s = Some (targetRole p))"

subsection \<open>Requests one after another, and requests interleaved\<close>

datatype Call = WebhookCall "string + StripeEvent" | VerifyCall "string option"

definition call_prog :: "Env \<Rightarrow> Call \<Rightarrow> Response Prog" where
  "call_prog env c =
     (case c of WebhookCall constructed \<Rightarrow> handleWebhook constructed
              | VerifyCall q \<Rightarrow> verifySession env q)"

text \<open>Each request runs to its response before the next one starts.\<close>

fun run_calls :: "Env \<Rightarrow> Call list \<Rightarrow> World \<Rightarrow> World" where
  "run_calls env [] w = w"
| "run_calls env (c # cs) w = run_calls env cs (snd (run (call_prog env c) w))"

text \<open>The request carries the session \<open>s\<close>: the webhook as a verified
  \<^verbatim>\<open>checkout.session.completed\<close> event, the verify endpoint as the session the gateway
  returns for the id in the query.\<close>

definition carries :: "Env \<Rightarrow> CheckoutSession \<Rightarrow> Call \<Rightarrow> bool" where
  "carries env s c =
     (case c of
        WebhookCall constructed \<Rightarrow>
          constructed = Inr \<lparr>event_type = ''checkout.session.completed'', data_object = s\<rparr>
      | VerifyCall q \<Rightarrow>
          q = Some (session_id s) \<and> session_id s \<noteq> [] \<and>
          sessions_retrieve env (session_id s) = Inr s)"

text \<open>Node runs one handler at a time and switches between requests at an \<^verbatim>\<open>await\<close>
  only. A schedule names, step by step, the request that performs its next awaited
  call; a request that has responded does nothing.\<close>

definition step_task :: "nat \<Rightarrow> World \<times> 'a Prog list \<Rightarrow> World \<times> 'a Prog list" where
  "step_task i cfg =
     (case cfg of (w, ts) \<Rightarrow>
        if i < length ts
        then (case ts ! i of
                Done r \<Rightarrow> (w, ts)
              | Await u k \<Rightarrow> (u w, ts[i := k w]))
        else (w, ts))"

fun run_schedule :: "nat list \<Rightarrow> World \<times> 'a Prog list \<Rightarrow> World \<times> 'a Prog list" where
  "run_schedule [] cfg = cfg"
| "run_schedule (i # sched) cfg = run_schedule sched (step_task i cfg)"

text \<open>The number of awaited calls a handler makes from a world on.\<close>

primrec steps :: "'a Prog \<Rightarrow> World \<Rightarrow> nat" where
  "steps (Done r) = (\<lambda>w. 0)"
| "steps (Await u k) = (\<lambda>w. Suc (steps (k w) (u w)))"

subsection \<open>Counting writes in the trace\<close>

fun is_settle_write :: "Effect \<Rightarrow> bool" where
  "is_settle_write (PurchaseUpdate i d) = (data_status d = Some PAID)"
| "is_settle_write (PurchaseCreate row) = False"
| "is_settle_write (UserUpdate uid r) = False"
| "is_settle_write (StripeSessionCreate params) = False"

definition settle_writes :: "Effect list \<Rightarrow> nat" where
  "settle_writes tr = length (filter is_settle_write tr)"

fun is_role_write :: "Effect \<Rightarrow> bool" where
  "is_role_write (UserUpdate uid r) = True"
| "is_role_write (PurchaseUpdate i d) = False"
| "is_role_write (PurchaseCreate row) = False"
| "is_role_write (StripeSessionCreate params) = False"

definition role_writes :: "Effect list \<Rightarrow> nat" where
  "role_writes tr = length (filter is_role_write tr)"

subsection \<open>Example data\<close>

definition alice :: User where
  "alice = \<lparr>role = USER, email = ''alice@example.com''\<rparr>"

definition gold_price :: string where
  "gold_price = ''price_1SHi5X3JFtC2WMSKqqCbjHoV''"

definition gold_purchase :: MembershipPurchase where
  "gold_purchase =
     \<lparr>purchase_id = ''pur_1'', userId = 1, targetRole = USER_GOLD, status = PENDING,
      amount = Some 129900, currency = Some ''THB'', gateway = Some ''stripe'',
      externalId = Some ''cs_1''\<rparr>"

definition gold_session :: CheckoutSession where
  "gold_session =
     \<lparr>session_id = ''cs_1'', session_url = Some ''https://checkout.stripe.com/c/pay/cs_1'',
      payment_status = Paid, session_status = Some Complete,
      amount_total = Some 129900, session_currency = Some ''thb'',
      meta_purchaseId = Some ''pur_1'', meta_targetRole = Some USER_GOLD\<rparr>"

definition gold_event :: StripeEvent where
  "gold_event = \<lparr>event_type = ''checkout.session.completed'', data_object = gold_session\<rparr>"

text \<open>A gateway that answers, and one that is down.\<close>

definition env_up :: Env where
  "env_up =
     \<lparr>CLIENT_URL = None,
      sessions_create = (\<lambda>params.
        Inr \<lparr>session_id = ''cs_1'',
             session_url = Some ''https://checkout.stripe.com/c/pay/cs_1'',
             payment_status = Unpaid, session_status = Some Open,
             amount_total = Some 129900, session_currency = Some ''thb'',
             meta_purchaseId = Some (metadata_purchaseId params),
             meta_targetRole = Some (metadata_targetRole params)\<rparr>),
      sessions_retrieve = (\<lambda>sid.
        if sid = ''cs_1'' then Inr gold_session else Inl ''No such checkout.session'')\<rparr>"

definition env_down :: Env where
  "env_down =
     \<lparr>CLIENT_URL = None,
      sessions_create = (\<lambda>params. Inl ''connect ETIMEDOUT''),
      sessions_retrieve = (\<lambda>sid. Inl ''connect ETIMEDOUT'')\<rparr>"

definition gold_body :: CheckoutBody where
  "gold_body =
     \<lparr>body_userId = Some 1, body_priceId = Some gold_price,
      body_successPath = Some ''/membership/success'',
      body_cancelPath = Some ''/membership/cancel''\<rparr>"

text \<open>Alice before any checkout, and with her gold purchase pending.\<close>

definition world_start :: World where
  "world_start = \<lparr>users = [1 \<mapsto> alice], purchases = [], trace = [], console = []\<rparr>"

definition world_pending :: World where
  "world_pending =
     \<lparr>users = [1 \<mapsto> alice], purchases = [gold_purchase], trace = [], console = []\<rparr>"

text \<open>The purchase settled while Alice is still a plain user (specification,
  scenario D).\<close>

definition world_paid_not_upgraded :: World where
  "world_paid_not_upgraded =
     \<lparr>users = [1 \<mapsto> alice], purchases = [gold_purchase\<lparr>status := PAID\<rparr>], trace = [],
      console = []\<rparr>"

text \<open>A platinum member (specification, scenario C), and the pending purchase of a
  user who is not stored.\<close>

definition world_platinum :: World where
  "world_platinum =
     \<lparr>users = [1 \<mapsto> alice\<lparr>role := USER_PLATINUM\<rparr>], purchases = [], trace = [], console = []\<rparr>"

definition world_no_user :: World where
  "world_no_user = \<lparr>users = Map.empty, purchases = [gold_purchase], trace = [], console = []\<rparr>"

text \<open>Alice's session reporting 100 instead of the 129900 of the gold plan
  (specification, scenario E).\<close>

definition underpaid_session :: CheckoutSession where
  "underpaid_session = gold_session\<lparr>amount_total := Some 100\<rparr>"

text \<open>Alice's second checkout, for platinum, paid as well while she is still a plain
  user: both purchases are pending and each session carries its own row's id and role.\<close>

definition platinum_purchase :: MembershipPurchase where
  "platinum_purchase =
     \<lparr>purchase_id = ''pur_2'', userId = 1, targetRole = USER_PLATINUM, status = PENDING,
      amount = Some 299900, currency = Some ''THB'', gateway = Some ''stripe'',
      externalId = Some ''cs_2''\<rparr>"

definition platinum_session :: CheckoutSession where
  "platinum_session =
     \<lparr>session_id = ''cs_2'', session_url = Some ''https://checkout.stripe.com/c/pay/cs_2'',
      payment_status = Paid, session_status = Some Complete,
      amount_total = Some 299900, session_currency = Some ''thb'',
      meta_purchaseId = Some ''pur_2'', meta_targetRole = Some USER_PLATINUM\<rparr>"

definition platinum_event :: StripeEvent where
  "platinum_event =
     \<lparr>event_type = ''checkout.session.completed'', data_object = platinum_session\<rparr>"

definition world_two_pending :: World where
  "world_two_pending =
     \<lparr>users = [1 \<mapsto> alice], purchases = [gold_purchase, platinum_purchase], trace = [],
      console = []\<rparr>"

text \<open>The two checkouts that lead there: Alice is a plain user at both, so the guard
  of line 191 lets both pass; the gateway numbers its sessions after the purchases.\<close>

definition platinum_price :: string where
  "platinum_price = ''price_1SHi7b3JFtC2WMSKRkKDIGL0''"

definition platinum_body :: CheckoutBody where
  "platinum_body = gold_body\<lparr>body_priceId := Some platinum_price\<rparr>"

definition env_two :: Env where
  "env_two =
     \<lparr>CLIENT_URL = None,
      sessions_create = (\<lambda>params.
        Inr \<lparr>session_id = (if metadata_purchaseId params = ''pur_2'' then ''cs_2'' else ''cs_1''),
             session_url = None,
             payment_status = Unpaid, session_status = Some Open,
             amount_total = None, session_currency = Some ''thb'',
             meta_purchaseId = Some (metadata_purchaseId params),
             meta_targetRole = Some (metadata_targetRole params)\<rparr>),
      sessions_retrieve = (\<lambda>sid.
        if sid = ''cs_1'' then Inr gold_session
        else if sid = ''cs_2'' then Inr platinum_session
        else Inl ''No such checkout.session'')\<rparr>"

text \<open>A checkout whose price id is a name every object inherits.\<close>

definition constructor_body :: CheckoutBody where
  "constructor_body = gold_body\<lparr>body_priceId := Some ''constructor''\<rparr>"

section \<open>Basic facts\<close>

lemmas prim_defs =
  prisma_user_findUnique_def prisma_user_update_def prisma_purchase_findUnique_def
  prisma_purchase_findFirst_externalId_def prisma_purchase_create_def
  prisma_purchase_update_def stripe_checkout_sessions_create_def
  stripe_checkout_sessions_retrieve_def console_out_def

lemmas example_defs =
  alice_def gold_price_def gold_purchase_def gold_session_def gold_event_def env_up_def
  env_down_def gold_body_def world_start_def world_pending_def world_paid_not_upgraded_def
  world_platinum_def world_no_user_def underpaid_session_def platinum_purchase_def
  platinum_session_def platinum_event_def world_two_pending_def constructor_body_def
  platinum_price_def platinum_body_def env_two_def

text \<open>Everything a closed instance needs unfolded to be computed by the simplifier.\<close>

lemmas eval_defs =
  createCheckoutSession_def handleWebhook_def verifySession_def verify_find_purchase_def
  verify_find_user_def verify_settle_def verify_body_def new_purchase_def session_params_def
  link_data_def paid_data_def apply_data_def cross_check_def console_lines_def
  webhook_resolve_def verify_resolve_def find_purchase_by_id_def
  find_purchase_by_externalId_def str_or_def truthy_str_def default_to_def toUpperCase_def
  STRIPE_PRICE_TO_PLAN_def checkout_rejects_def webhook_upgrades_def verify_upgrades_def
  call_prog_def carries_def step_task_def settle_writes_def role_writes_def Let_def
  plan_lookup_def Object_prototype_keys_def prisma_purchase_create_refused_def linked_def

text \<open>A schedule that gives one request all its steps runs it as \<open>run\<close> does, and the
  schedule that does so for one request after the other is \<open>run_calls\<close>: the sequential
  runs are among the schedules.\<close>

lemma run_schedule_one_request:
  "i < length ts \<Longrightarrow> steps (ts ! i) w \<le> n \<Longrightarrow>
   run_schedule (replicate n i) (w, ts)
     = (snd (run (ts ! i) w), ts[i := Done (fst (run (ts ! i) w))])"
proof (induction n arbitrary: w ts)
  case 0
  then obtain r where "ts ! i = Done r" by (cases "ts ! i") simp_all
  then have "ts[i := Done r] = ts" by (metis list_update_id)
  with \<open>ts ! i = Done r\<close> show ?case by simp
next
  case (Suc n)
  show ?case
  proof (cases "ts ! i")
    case (Done r)
    with Suc.prems(1) have st: "step_task i (w, ts) = (w, ts)" by (simp add: step_task_def)
    from Done have "steps (ts ! i) w \<le> n" by simp
    from Suc.IH [OF Suc.prems(1) this] st show ?thesis by simp
  next
    case (Await u k)
    with Suc.prems(1) have st: "step_task i (w, ts) = (u w, ts[i := k w])"
      by (simp add: step_task_def)
    from Await Suc.prems have le: "steps (ts[i := k w] ! i) (u w) \<le> n" by simp
    have len: "i < length (ts[i := k w])" using Suc.prems(1) by simp
    from Suc.IH [OF len le] st Await Suc.prems(1) show ?thesis by simp
  qed
qed

lemma run_schedule_append:
  "run_schedule (xs @ ys) cfg = run_schedule ys (run_schedule xs cfg)"
  by (induction xs arbitrary: cfg) simp_all

lemma sequential_schedule:
  assumes "steps (call_prog env a) w \<le> n"
    and "steps (call_prog env b) (snd (run (call_prog env a) w)) \<le> m"
  shows "fst (run_schedule (replicate n 0 @ replicate m (Suc 0))
                (w, [call_prog env a, call_prog env b]))
     = run_calls env [a, b] w"
proof -
  let ?w1 = "snd (run (call_prog env a) w)"
  have one: "run_schedule (replicate n 0) (w, [call_prog env a, call_prog env b])
      = (?w1, [Done (fst (run (call_prog env a) w)), call_prog env b])"
    using run_schedule_one_request [of 0 "[call_prog env a, call_prog env b]" w n] assms(1)
    by simp
  have two: "run_schedule (replicate m (Suc 0))
        (?w1, [Done (fst (run (call_prog env a) w)), call_prog env b])
      = (snd (run (call_prog env b) ?w1),
         [Done (fst (run (call_prog env a) w)), Done (fst (run (call_prog env b) ?w1))])"
    using run_schedule_one_request
      [of "Suc 0" "[Done (fst (run (call_prog env a) w)), call_prog env b]" ?w1 m] assms(2)
    by simp
  show ?thesis by (simp add: run_schedule_append one two)
qed

lemma run_console_lines:
  "run (console_lines ls k) w = run k (w\<lparr>console := console w @ ls\<rparr>)"
  by (induction ls arbitrary: w) (simp_all add: console_lines_def console_out_def)

lemma find_purchase_by_id_Some:
  "find_purchase_by_id i ps = Some p \<Longrightarrow> purchase_id p = i"
  by (auto simp: find_purchase_by_id_def find_Some_iff)

lemma find_purchase_by_id_self:
  "find_purchase_by_id i ps = Some p \<Longrightarrow> find_purchase_by_id (purchase_id p) ps = Some p"
  using find_purchase_by_id_Some by fastforce


lemma find_purchase_by_id_mem:
  "find_purchase_by_id i ps = Some p \<Longrightarrow> p \<in> set ps"
  by (auto simp: find_purchase_by_id_def find_Some_iff)

lemma find_purchase_by_externalId_mem:
  "find_purchase_by_externalId e ps = Some p \<Longrightarrow> p \<in> set ps"
  by (auto simp: find_purchase_by_externalId_def find_Some_iff)

lemma verify_resolve_mem:
  "verify_resolve s ps = Some p \<Longrightarrow> p \<in> set ps"
  by (auto simp: verify_resolve_def split: option.splits
      dest: find_purchase_by_id_mem find_purchase_by_externalId_mem)

lemma find_purchase_by_id_distinct:
  "distinct (map purchase_id ps) \<Longrightarrow> p \<in> set ps \<Longrightarrow> find_purchase_by_id (purchase_id p) ps = Some p"
  by (induction ps) (auto simp: find_purchase_by_id_def)

lemma find_purchase_by_id_map:
  "(\<And>q. purchase_id (f q) = purchase_id q) \<Longrightarrow>
   find_purchase_by_id i (map (\<lambda>q. if purchase_id q = j then f q else q) ps)
     = map_option (\<lambda>q. if purchase_id q = j then f q else q) (find_purchase_by_id i ps)"
  by (induction ps) (auto simp: find_purchase_by_id_def)

lemma purchase_id_apply_data [simp]: "purchase_id (apply_data d q) = purchase_id q"
  by (simp add: apply_data_def)

lemma find_purchase_by_id_None:
  "find_purchase_by_id i ps = None \<longleftrightarrow> (\<forall>q \<in> set ps. purchase_id q \<noteq> i)"
  by (auto simp: find_purchase_by_id_def find_None_iff)

lemma find_purchase_by_id_append_fresh:
  "find_purchase_by_id (purchase_id row) ps = None \<Longrightarrow>
   find_purchase_by_id (purchase_id row) (ps @ [row]) = Some row"
  by (induction ps) (auto simp: find_purchase_by_id_def split: if_splits)

lemma map_update_append_fresh:
  "find_purchase_by_id (purchase_id row) ps = None \<Longrightarrow>
   map (\<lambda>q. if purchase_id q = purchase_id row then f q else q) (ps @ [row]) = ps @ [f row]"
  by (simp add: find_purchase_by_id_None map_idI)

lemma find_purchase_by_externalId_map:
  assumes "distinct (map purchase_id ps)" and "p \<in> set ps"
    and "externalId (f p) = Some e"
    and "find_purchase_by_externalId e ps = Some p \<or> find_purchase_by_externalId e ps = None"
  shows "find_purchase_by_externalId e (map (\<lambda>q. if purchase_id q = purchase_id p then f q else q) ps)
     = Some (f p)"
  using assms
proof (induction ps)
  case Nil
  then show ?case by simp
next
  case (Cons a ps)
  show ?case
  proof (cases "a = p")
    case True
    with Cons.prems(3) show ?thesis by (simp add: find_purchase_by_externalId_def)
  next
    case False
    with Cons.prems have p: "p \<in> set ps" and d: "distinct (map purchase_id ps)"
      and ne: "purchase_id a \<noteq> purchase_id p" by auto
    from Cons.prems(4) False have na: "externalId a \<noteq> Some e"
      by (auto simp: find_purchase_by_externalId_def split: if_splits)
    with Cons.prems(4) have "find_purchase_by_externalId e ps = Some p \<or> find_purchase_by_externalId e ps = None"
      by (auto simp: find_purchase_by_externalId_def)
    from Cons.IH [OF d p Cons.prems(3) this] ne na show ?thesis
      by (simp add: find_purchase_by_externalId_def)
  qed
qed

lemma verify_resolve_map:
  assumes "distinct (map purchase_id ps)" and "verify_resolve s ps = Some p"
    and "externalId (f p) = Some (session_id s)"
  shows "verify_resolve s (map (\<lambda>q. if purchase_id q = purchase_id p then f q else q) ps) = Some (f p)"
proof -
  have mem: "p \<in> set ps" using assms(2) by (rule verify_resolve_mem)
  have "find_purchase_by_externalId (session_id s) ps = Some p
      \<or> find_purchase_by_externalId (session_id s) ps = None"
    using assms(2) by (auto simp: verify_resolve_def split: option.splits)
  from find_purchase_by_externalId_map [where f = f, OF assms(1) mem assms(3) this]
  show ?thesis by (simp add: verify_resolve_def)
qed

lemma webhook_resolve_map:
  assumes "webhook_resolve s ps = Some p" and "\<And>q. purchase_id (f q) = purchase_id q"
  shows "webhook_resolve s (map (\<lambda>q. if purchase_id q = purchase_id p then f q else q) ps) = Some (f p)"
  using assms
  by (auto simp: webhook_resolve_def find_purchase_by_id_map split: option.splits
      dest: find_purchase_by_id_Some)

lemma distinct_map_update:
  "(\<And>q. purchase_id (f q) = purchase_id q) \<Longrightarrow>
   map purchase_id (map (\<lambda>q. if purchase_id q = j then f q else q) ps) = map purchase_id ps"
  by (induction ps) auto

lemma settle_writes_append [simp]:
  "settle_writes (xs @ ys) = settle_writes xs + settle_writes ys"
  by (simp add: settle_writes_def)

lemma role_writes_append [simp]:
  "role_writes (xs @ ys) = role_writes xs + role_writes ys"
  by (simp add: role_writes_def)

section \<open>The role-rank comparator\<close>

text \<open>
  Claim C6. For every pair of roles (current, target) the guard of
  \<^verbatim>\<open>createCheckoutSession\<close> and the upgrade checks of \<^verbatim>\<open>handleWebhook\<close> and
  \<^verbatim>\<open>verifySession\<close> agree: checkout rejects the pair exactly when settlement skips the
  upgrade, and all three decide by the rank of the target being greater than the rank of
  the current role in the one table \<open>ROLE_RANK\<close>.
\<close>

theorem C6_guard_and_upgrade_checks_agree:
  "checkout_rejects current target = (\<not> webhook_upgrades current target)
   \<and> webhook_upgrades current target = verify_upgrades current target
   \<and> verify_upgrades current target = (ROLE_RANK target > ROLE_RANK current)"
  by (auto simp: checkout_rejects_def webhook_upgrades_def verify_upgrades_def)

section \<open>Checkout\<close>

subsection \<open>What each failed validation returns\<close>

lemma plan_lookup_own: "map_of STRIPE_PRICE_TO_PLAN priceId = Some plan \<Longrightarrow> plan_lookup priceId = OwnPlan plan"
  by (simp add: plan_lookup_def)

lemma plan_lookup_not_own:
  "map_of STRIPE_PRICE_TO_PLAN priceId = None \<Longrightarrow>
   plan_lookup priceId = (if priceId \<in> set Object_prototype_keys then Inherited else Absent)"
  by (simp add: plan_lookup_def)

lemma run_checkout_no_user_id:
  "body_userId body = None \<or> body_userId body = Some 0 \<Longrightarrow>
   run (createCheckoutSession env newId body) w = (Json_error 400 ''userId required'', w)"
  by (auto simp: createCheckoutSession_def Let_def)

lemma run_checkout_no_price_id:
  "body_userId body = Some uid \<Longrightarrow> uid \<noteq> 0 \<Longrightarrow> truthy_str (body_priceId body) = None \<Longrightarrow>
   run (createCheckoutSession env newId body) w = (Json_error 400 ''priceId required'', w)"
  by (simp add: createCheckoutSession_def Let_def)

lemma run_checkout_invalid_price_id:
  "body_userId body = Some uid \<Longrightarrow> uid \<noteq> 0 \<Longrightarrow> truthy_str (body_priceId body) = Some priceId \<Longrightarrow>
   plan_lookup priceId = Absent \<Longrightarrow>
   run (createCheckoutSession env newId body) w = (Json_error 400 ''invalid priceId'', w)"
  by (simp add: createCheckoutSession_def Let_def)

lemma run_checkout_user_not_found:
  "body_userId body = Some uid \<Longrightarrow> uid \<noteq> 0 \<Longrightarrow> truthy_str (body_priceId body) = Some priceId \<Longrightarrow>
   plan_lookup priceId \<noteq> Absent \<Longrightarrow> users w uid = None \<Longrightarrow>
   run (createCheckoutSession env newId body) w = (Json_error 404 ''user not found'', w)"
  by (cases "plan_lookup priceId")
     (simp_all add: createCheckoutSession_def Let_def prisma_user_findUnique_def)

lemma run_checkout_not_an_upgrade:
  "body_userId body = Some uid \<Longrightarrow> uid \<noteq> 0 \<Longrightarrow> truthy_str (body_priceId body) = Some priceId \<Longrightarrow>
   plan_lookup priceId = OwnPlan plan \<Longrightarrow> users w uid = Some user \<Longrightarrow>
   checkout_rejects (role user) (plan_role plan) \<Longrightarrow>
   run (createCheckoutSession env newId body) w
     = (Json_error 409 ''already has equal or higher role'', w)"
  by (simp add: createCheckoutSession_def Let_def prisma_user_findUnique_def)

lemma run_checkout_inherited_key:
  "body_userId body = Some uid \<Longrightarrow> uid \<noteq> 0 \<Longrightarrow> truthy_str (body_priceId body) = Some priceId \<Longrightarrow>
   plan_lookup priceId = Inherited \<Longrightarrow> users w uid = Some user \<Longrightarrow>
   run (createCheckoutSession env newId body) w
     = (Json_error 500 ''Argument targetRole is missing.'',
        w\<lparr>console := console w @ [Error_checkout ''Argument targetRole is missing.'']\<rparr>)"
  by (simp add: createCheckoutSession_def Let_def prisma_user_findUnique_def
      prisma_purchase_create_refused_def console_out_def)

text \<open>
  Claim C5. \<^verbatim>\<open>createCheckoutSession\<close> answers with an error and leaves the users, the
  purchases and the write trace as they were whenever the user id is missing (or 0), the
  price id is missing (or empty) or is not a price of the plan registry, no user is stored
  under the user id, or the rank of the plan's role is less than or equal to the rank of
  the user's role. Case by case, in the order of the source: no user id gives 400
  \<^verbatim>\<open>userId required\<close>; no price id gives 400 \<^verbatim>\<open>priceId required\<close>; a price id that the registry
  object neither has nor inherits gives 400 \<^verbatim>\<open>invalid priceId\<close>; no stored user gives 404
  \<^verbatim>\<open>user not found\<close>; a plan whose role does not rank strictly above the user's gives 409
  \<^verbatim>\<open>already has equal or higher role\<close>, with the world unchanged in each of these; and a
  price id that is a name the registry object inherits, for a stored user, gives 500
  through the \<^verbatim>\<open>catch\<close> of line 228, with one console line and still no row. Conversely,
  when the purchases differ after the call, every validation has passed: the user id is
  present, the user is stored, the price id is listed in the registry, and the plan's role
  ranks strictly above the user's.
\<close>

theorem C5_checkout_validates_before_create:
  "((body_userId body = None \<or> body_userId body = Some 0
      \<or> truthy_str (body_priceId body) = None
      \<or> (\<exists>priceId. truthy_str (body_priceId body) = Some priceId
            \<and> map_of STRIPE_PRICE_TO_PLAN priceId = None)
      \<or> (\<exists>uid. body_userId body = Some uid \<and> users w uid = None)
      \<or> (\<exists>uid user priceId plan.
            body_userId body = Some uid \<and> users w uid = Some user
            \<and> truthy_str (body_priceId body) = Some priceId
            \<and> map_of STRIPE_PRICE_TO_PLAN priceId = Some plan
            \<and> checkout_rejects (role user) (plan_role plan)))
     \<longrightarrow> (\<exists>code msg. fst (run (createCheckoutSession env newId body) w) = Json_error code msg
                \<and> code \<in> {400, 404, 409, 500})
          \<and> users (snd (run (createCheckoutSession env newId body) w)) = users w
          \<and> purchases (snd (run (createCheckoutSession env newId body) w)) = purchases w
          \<and> trace (snd (run (createCheckoutSession env newId body) w)) = trace w)
   \<and> (body_userId body = None \<or> body_userId body = Some 0
     \<longrightarrow> run (createCheckoutSession env newId body) w = (Json_error 400 ''userId required'', w))
   \<and> (body_userId body = Some uid \<and> uid \<noteq> 0 \<and> truthy_str (body_priceId body) = None
     \<longrightarrow> run (createCheckoutSession env newId body) w = (Json_error 400 ''priceId required'', w))
   \<and> (body_userId body = Some uid \<and> uid \<noteq> 0 \<and> truthy_str (body_priceId body) = Some priceId
      \<and> map_of STRIPE_PRICE_TO_PLAN priceId = None \<and> priceId \<notin> set Object_prototype_keys
     \<longrightarrow> run (createCheckoutSession env newId body) w = (Json_error 400 ''invalid priceId'', w))
   \<and> (body_userId body = Some uid \<and> uid \<noteq> 0 \<and> truthy_str (body_priceId body) = Some priceId
      \<and> (map_of STRIPE_PRICE_TO_PLAN priceId = None \<longrightarrow> priceId \<in> set Object_prototype_keys)
      \<and> users w uid = None
     \<longrightarrow> run (createCheckoutSession env newId body) w = (Json_error 404 ''user not found'', w))
   \<and> (body_userId body = Some uid \<and> uid \<noteq> 0 \<and> truthy_str (body_priceId body) = Some priceId
      \<and> map_of STRIPE_PRICE_TO_PLAN priceId = Some plan \<and> users w uid = Some user
      \<and> checkout_rejects (role user) (plan_role plan)
     \<longrightarrow> run (createCheckoutSession env newId body) w
           = (Json_error 409 ''already has equal or higher role'', w))
   \<and> (body_userId body = Some uid \<and> uid \<noteq> 0 \<and> truthy_str (body_priceId body) = Some priceId
      \<and> map_of STRIPE_PRICE_TO_PLAN priceId = None \<and> priceId \<in> set Object_prototype_keys
      \<and> users w uid = Some user
     \<longrightarrow> run (createCheckoutSession env newId body) w
           = (Json_error 500 ''Argument targetRole is missing.'',
              w\<lparr>console := console w @ [Error_checkout ''Argument targetRole is missing.'']\<rparr>))
   \<and> (purchases (snd (run (createCheckoutSession env newId body) w)) \<noteq> purchases w
     \<longrightarrow> (\<exists>uid user priceId plan.
            body_userId body = Some uid \<and> uid \<noteq> 0 \<and> users w uid = Some user
            \<and> truthy_str (body_priceId body) = Some priceId
            \<and> map_of STRIPE_PRICE_TO_PLAN priceId = Some plan
            \<and> \<not> checkout_rejects (role user) (plan_role plan)))"
proof -
  let ?r = "run (createCheckoutSession env newId body) w"
  let ?rejected = "(\<exists>code msg. fst ?r = Json_error code msg \<and> code \<in> {400, 404, 409, 500})
     \<and> users (snd ?r) = users w \<and> purchases (snd ?r) = purchases w \<and> trace (snd ?r) = trace w"
  let ?valid = "\<exists>uid user priceId plan.
            body_userId body = Some uid \<and> uid \<noteq> 0 \<and> users w uid = Some user
            \<and> truthy_str (body_priceId body) = Some priceId
            \<and> map_of STRIPE_PRICE_TO_PLAN priceId = Some plan
            \<and> \<not> checkout_rejects (role user) (plan_role plan)"
  have dich: "?rejected \<or> ?valid"
  proof (cases "body_userId body = None \<or> body_userId body = Some 0")
    case True
    from run_checkout_no_user_id [OF this] show ?thesis by simp
  next
    case False
    then obtain uid' where uid: "body_userId body = Some uid'" "uid' \<noteq> 0" by auto
    show ?thesis
    proof (cases "truthy_str (body_priceId body)")
      case None
      from run_checkout_no_price_id [OF uid this] show ?thesis by simp
    next
      case (Some priceId')
      note price = this
      show ?thesis
      proof (cases "plan_lookup priceId'")
        case Absent
        from run_checkout_invalid_price_id [OF uid price this] show ?thesis by simp
      next
        case Inherited
        show ?thesis
        proof (cases "users w uid'")
          case None
          from run_checkout_user_not_found [OF uid price _ this] Inherited show ?thesis by simp
        next
          case (Some user')
          from run_checkout_inherited_key [OF uid price Inherited this] show ?thesis by simp
        qed
      next
        case (OwnPlan plan')
        then have own: "map_of STRIPE_PRICE_TO_PLAN priceId' = Some plan'"
          by (auto simp: plan_lookup_def split: option.splits if_splits)
        show ?thesis
        proof (cases "users w uid'")
          case None
          from run_checkout_user_not_found [OF uid price _ this] OwnPlan show ?thesis by simp
        next
          case (Some user')
          note user = this
          show ?thesis
          proof (cases "checkout_rejects (role user') (plan_role plan')")
            case True
            from run_checkout_not_an_upgrade [OF uid price OwnPlan user this] show ?thesis by simp
          next
            case False
            with uid price own user show ?thesis by blast
          qed
        qed
      qed
    qed
  qed
  have excl: "?valid \<Longrightarrow> \<not> (body_userId body = None \<or> body_userId body = Some 0
      \<or> truthy_str (body_priceId body) = None
      \<or> (\<exists>priceId. truthy_str (body_priceId body) = Some priceId
            \<and> map_of STRIPE_PRICE_TO_PLAN priceId = None)
      \<or> (\<exists>uid. body_userId body = Some uid \<and> users w uid = None)
      \<or> (\<exists>uid user priceId plan.
            body_userId body = Some uid \<and> users w uid = Some user
            \<and> truthy_str (body_priceId body) = Some priceId
            \<and> map_of STRIPE_PRICE_TO_PLAN priceId = Some plan
            \<and> checkout_rejects (role user) (plan_role plan)))"
    by auto
  have general: "(body_userId body = None \<or> body_userId body = Some 0
      \<or> truthy_str (body_priceId body) = None
      \<or> (\<exists>priceId. truthy_str (body_priceId body) = Some priceId
            \<and> map_of STRIPE_PRICE_TO_PLAN priceId = None)
      \<or> (\<exists>uid. body_userId body = Some uid \<and> users w uid = None)
      \<or> (\<exists>uid user priceId plan.
            body_userId body = Some uid \<and> users w uid = Some user
            \<and> truthy_str (body_priceId body) = Some priceId
            \<and> map_of STRIPE_PRICE_TO_PLAN priceId = Some plan
            \<and> checkout_rejects (role user) (plan_role plan)))
     \<longrightarrow> ?rejected"
    using dich excl by blast
  have created: "purchases (snd ?r) \<noteq> purchases w \<longrightarrow> ?valid"
    using dich by blast
  have c1: "body_userId body = None \<or> body_userId body = Some 0
     \<longrightarrow> ?r = (Json_error 400 ''userId required'', w)"
    using run_checkout_no_user_id by blast
  have c2: "body_userId body = Some uid \<and> uid \<noteq> 0 \<and> truthy_str (body_priceId body) = None
     \<longrightarrow> ?r = (Json_error 400 ''priceId required'', w)"
    using run_checkout_no_price_id by blast
  have c3: "body_userId body = Some uid \<and> uid \<noteq> 0 \<and> truthy_str (body_priceId body) = Some priceId
      \<and> map_of STRIPE_PRICE_TO_PLAN priceId = None \<and> priceId \<notin> set Object_prototype_keys
     \<longrightarrow> ?r = (Json_error 400 ''invalid priceId'', w)"
    by (auto intro!: run_checkout_invalid_price_id simp: plan_lookup_not_own)
  have c4: "body_userId body = Some uid \<and> uid \<noteq> 0 \<and> truthy_str (body_priceId body) = Some priceId
      \<and> (map_of STRIPE_PRICE_TO_PLAN priceId = None \<longrightarrow> priceId \<in> set Object_prototype_keys)
      \<and> users w uid = None
     \<longrightarrow> ?r = (Json_error 404 ''user not found'', w)"
    by (auto intro!: run_checkout_user_not_found simp: plan_lookup_def split: option.splits)
  have c5: "body_userId body = Some uid \<and> uid \<noteq> 0 \<and> truthy_str (body_priceId body) = Some priceId
      \<and> map_of STRIPE_PRICE_TO_PLAN priceId = Some plan \<and> users w uid = Some user
      \<and> checkout_rejects (role user) (plan_role plan)
     \<longrightarrow> ?r = (Json_error 409 ''already has equal or higher role'', w)"
    by (auto intro!: run_checkout_not_an_upgrade simp: plan_lookup_own)
  have c6: "body_userId body = Some uid \<and> uid \<noteq> 0 \<and> truthy_str (body_priceId body) = Some priceId
      \<and> map_of STRIPE_PRICE_TO_PLAN priceId = None \<and> priceId \<in> set Object_prototype_keys
      \<and> users w uid = Some user
     \<longrightarrow> ?r = (Json_error 500 ''Argument targetRole is missing.'',
              w\<lparr>console := console w @ [Error_checkout ''Argument targetRole is missing.'']\<rparr>)"
    by (auto intro!: run_checkout_inherited_key simp: plan_lookup_not_own)
  from general c1 c2 c3 c4 c5 c6 created show ?thesis by (intro conjI)
qed

text \<open>The theorem at a platinum member asking for gold (specification, scenario C), at
  the price id \<^verbatim>\<open>constructor\<close>, and at Alice's gold checkout, which creates a row.\<close>

theorem C5_checkout_validates_before_create_witness:
  "body_userId gold_body = Some 1
   \<and> truthy_str (body_priceId gold_body) = Some gold_price
   \<and> map_of STRIPE_PRICE_TO_PLAN gold_price
       = Some \<lparr>plan_role = USER_GOLD, plan_amount = 129900, plan_currency = ''THB'',
               plan_label = ''Gold 1299''\<rparr>
   \<and> users world_platinum 1 = Some (alice\<lparr>role := USER_PLATINUM\<rparr>)
   \<and> checkout_rejects USER_PLATINUM USER_GOLD
   \<and> run (createCheckoutSession env_up ''pur_1'' gold_body) world_platinum
       = (Json_error 409 ''already has equal or higher role'', world_platinum)
   \<and> truthy_str (body_priceId constructor_body) = Some ''constructor''
   \<and> map_of STRIPE_PRICE_TO_PLAN ''constructor'' = None
   \<and> ''constructor'' \<in> set Object_prototype_keys
   \<and> users world_start 1 = Some alice
   \<and> run (createCheckoutSession env_up ''pur_1'' constructor_body) world_start
       = (Json_error 500 ''Argument targetRole is missing.'',
          world_start\<lparr>console := [Error_checkout ''Argument targetRole is missing.'']\<rparr>)
   \<and> purchases (snd (run (createCheckoutSession env_up ''pur_1'' gold_body) world_start))
       \<noteq> purchases world_start
   \<and> (\<exists>uid user priceId plan.
         body_userId gold_body = Some uid \<and> uid \<noteq> 0 \<and> users world_start uid = Some user
         \<and> truthy_str (body_priceId gold_body) = Some priceId
         \<and> map_of STRIPE_PRICE_TO_PLAN priceId = Some plan
         \<and> \<not> checkout_rejects (role user) (plan_role plan))"
proof -
  let ?plan = "\<lparr>plan_role = USER_GOLD, plan_amount = 129900, plan_currency = ''THB'',
               plan_label = ''Gold 1299''\<rparr>"
  have body: "body_userId gold_body = Some 1" "(1::int) \<noteq> 0"
    "truthy_str (body_priceId gold_body) = Some gold_price"
    "body_userId constructor_body = Some 1"
    "truthy_str (body_priceId constructor_body) = Some ''constructor''"
    by (simp_all add: gold_body_def constructor_body_def truthy_str_def gold_price_def)
  have plan: "map_of STRIPE_PRICE_TO_PLAN gold_price = Some ?plan"
    "map_of STRIPE_PRICE_TO_PLAN ''constructor'' = None"
    "''constructor'' \<in> set Object_prototype_keys"
    by (simp_all add: STRIPE_PRICE_TO_PLAN_def gold_price_def Object_prototype_keys_def)
  have user: "users world_platinum 1 = Some (alice\<lparr>role := USER_PLATINUM\<rparr>)"
    "users world_start 1 = Some alice"
    by (simp_all add: world_platinum_def world_start_def)
  have rej: "checkout_rejects USER_PLATINUM USER_GOLD"
    "checkout_rejects (role (alice\<lparr>role := USER_PLATINUM\<rparr>)) (plan_role ?plan)"
    by (simp_all add: checkout_rejects_def)
  have created: "purchases (snd (run (createCheckoutSession env_up ''pur_1'' gold_body) world_start))
       \<noteq> purchases world_start"
    by (simp add: eval_defs prim_defs example_defs)
  have con: "console world_start = []" by (simp add: world_start_def)
  note c409 = C5_checkout_validates_before_create
         [where body = gold_body and w = world_platinum and env = env_up and newId = "''pur_1''"
            and uid = 1 and priceId = gold_price and plan = ?plan
            and user = "alice\<lparr>role := USER_PLATINUM\<rparr>",
          THEN conjunct2, THEN conjunct2, THEN conjunct2, THEN conjunct2, THEN conjunct2,
          THEN conjunct1, rule_format]
  have a: "run (createCheckoutSession env_up ''pur_1'' gold_body) world_platinum
       = (Json_error 409 ''already has equal or higher role'', world_platinum)"
    by (rule c409) (simp add: body plan user rej)
  note c500 = C5_checkout_validates_before_create
         [where body = constructor_body and w = world_start and env = env_up
            and newId = "''pur_1''" and uid = 1 and priceId = "''constructor''" and user = alice,
          THEN conjunct2, THEN conjunct2, THEN conjunct2, THEN conjunct2, THEN conjunct2,
          THEN conjunct2, THEN conjunct1, rule_format]
  have "run (createCheckoutSession env_up ''pur_1'' constructor_body) world_start
       = (Json_error 500 ''Argument targetRole is missing.'',
          world_start\<lparr>console := console world_start
             @ [Error_checkout ''Argument targetRole is missing.'']\<rparr>)"
    by (rule c500) (simp add: body plan user)
  then have b: "run (createCheckoutSession env_up ''pur_1'' constructor_body) world_start
       = (Json_error 500 ''Argument targetRole is missing.'',
          world_start\<lparr>console := [Error_checkout ''Argument targetRole is missing.'']\<rparr>)"
    by (simp add: con)
  note cvalid = C5_checkout_validates_before_create
         [where body = gold_body and w = world_start and env = env_up and newId = "''pur_1''",
          THEN conjunct2, THEN conjunct2, THEN conjunct2, THEN conjunct2, THEN conjunct2,
          THEN conjunct2, THEN conjunct2, rule_format]
  have c: "\<exists>uid user priceId plan.
         body_userId gold_body = Some uid \<and> uid \<noteq> 0 \<and> users world_start uid = Some user
         \<and> truthy_str (body_priceId gold_body) = Some priceId
         \<and> map_of STRIPE_PRICE_TO_PLAN priceId = Some plan
         \<and> \<not> checkout_rejects (role user) (plan_role plan)"
    by (rule cvalid) (rule created)
  from body(1,3) plan(1) user(1) rej(1) a body(5) plan(2,3) user(2) b created c
  show ?thesis by (intro conjI)
qed

subsection \<open>The effects of a checkout that passes validation\<close>

lemma run_checkout_valid:
  assumes "body_userId body = Some uid" and "uid \<noteq> 0"
    and "truthy_str (body_priceId body) = Some priceId"
    and "map_of STRIPE_PRICE_TO_PLAN priceId = Some plan"
    and "users w uid = Some user" and "\<not> checkout_rejects (role user) (plan_role plan)"
    and "find_purchase_by_id newId (purchases w) = None"
  shows "run (createCheckoutSession env newId body) w
     = (let row = new_purchase newId uid plan;
            params = session_params env body priceId row uid plan
        in case sessions_create env params of
             Inl msg \<Rightarrow>
               (Json_error 500 msg,
                w\<lparr>purchases := purchases w @ [row],
                  trace := trace w @ [PurchaseCreate row, StripeSessionCreate params],
                  console := console w @ [Error_checkout msg]\<rparr>)
           | Inr session \<Rightarrow>
               (Json_checkout (session_url session) (session_id session) newId,
                w\<lparr>purchases := purchases w @ [apply_data (link_data session) row],
                  trace := trace w @ [PurchaseCreate row, StripeSessionCreate params,
                                      PurchaseUpdate newId (link_data session)]\<rparr>))"
proof -
  have id: "purchase_id (new_purchase newId uid plan) = newId"
    by (simp add: new_purchase_def)
  have fresh: "find_purchase_by_id (purchase_id (new_purchase newId uid plan)) (purchases w) = None"
    using assms(7) id by simp
  note a = find_purchase_by_id_append_fresh [OF fresh]
  note b = map_update_append_fresh [OF fresh]
  have lookup: "plan_lookup priceId = OwnPlan plan"
    using assms(4) by (simp add: plan_lookup_def)
  show ?thesis
    using assms a b lookup
    by (simp add: createCheckoutSession_def prim_defs Let_def id split: sum.split)
qed

text \<open>
  Claim C8. When the validations pass and the generated key is new, \<^verbatim>\<open>createCheckoutSession\<close>
  performs its effects in this order: it creates the purchase row with status PENDING
  and the plan's amount and currency (and no external id), then asks the gateway for a
  session whose metadata carry the purchase id, the user id and the target role, then
  sets the row's external id to the id of the returned session. When the gateway call
  fails, the trace ends after the request: the row stays as created, PENDING and with
  no external id, and the response is the error.
\<close>

theorem C8_checkout_effects_in_order:
  assumes "body_userId body = Some uid" and "uid \<noteq> 0"
    and "truthy_str (body_priceId body) = Some priceId"
    and "map_of STRIPE_PRICE_TO_PLAN priceId = Some plan"
    and "users w uid = Some user" and "\<not> checkout_rejects (role user) (plan_role plan)"
    and "find_purchase_by_id newId (purchases w) = None"
    and "row = new_purchase newId uid plan"
    and "params = session_params env body priceId row uid plan"
    and "run (createCheckoutSession env newId body) w = (resp, w')"
  shows "status row = PENDING \<and> amount row = Some (plan_amount plan)
       \<and> currency row = Some (plan_currency plan) \<and> externalId row = None
       \<and> metadata_purchaseId params = newId \<and> metadata_userId params = uid
       \<and> metadata_targetRole params = plan_role plan
       \<and> (case sessions_create env params of
            Inr session \<Rightarrow>
              trace w' = trace w @ [PurchaseCreate row, StripeSessionCreate params,
                                    PurchaseUpdate newId (link_data session)]
              \<and> purchases w' = purchases w @ [row\<lparr>externalId := Some (session_id session)\<rparr>]
              \<and> resp = Json_checkout (session_url session) (session_id session) newId
          | Inl msg \<Rightarrow>
              trace w' = trace w @ [PurchaseCreate row, StripeSessionCreate params]
              \<and> purchases w' = purchases w @ [row]
              \<and> resp = Json_error 500 msg)"
proof -
  have fields: "status row = PENDING \<and> amount row = Some (plan_amount plan)
       \<and> currency row = Some (plan_currency plan) \<and> externalId row = None
       \<and> metadata_purchaseId params = newId \<and> metadata_userId params = uid
       \<and> metadata_targetRole params = plan_role plan"
    using assms(8,9) by (simp add: new_purchase_def session_params_def Let_def)
  have link: "apply_data (link_data session) row = row\<lparr>externalId := Some (session_id session)\<rparr>"
    for session
    by (simp add: apply_data_def link_data_def)
  note eq = run_checkout_valid [OF assms(1-7), of env]
  have "case sessions_create env params of
            Inr session \<Rightarrow>
              trace w' = trace w @ [PurchaseCreate row, StripeSessionCreate params,
                                    PurchaseUpdate newId (link_data session)]
              \<and> purchases w' = purchases w @ [row\<lparr>externalId := Some (session_id session)\<rparr>]
              \<and> resp = Json_checkout (session_url session) (session_id session) newId
          | Inl msg \<Rightarrow>
              trace w' = trace w @ [PurchaseCreate row, StripeSessionCreate params]
              \<and> purchases w' = purchases w @ [row]
              \<and> resp = Json_error 500 msg"
    using eq assms(8,9,10) link
    by (auto simp: Let_def split: sum.splits)
  with fields show ?thesis by simp
qed

theorem C8_checkout_effects_in_order_witness:
  "body_userId gold_body = Some 1 \<and> (1::int) \<noteq> 0
   \<and> truthy_str (body_priceId gold_body) = Some gold_price
   \<and> map_of STRIPE_PRICE_TO_PLAN gold_price
       = Some \<lparr>plan_role = USER_GOLD, plan_amount = 129900, plan_currency = ''THB'',
               plan_label = ''Gold 1299''\<rparr>
   \<and> users world_start 1 = Some alice \<and> \<not> checkout_rejects (role alice) USER_GOLD
   \<and> find_purchase_by_id ''pur_1'' (purchases world_start) = None
   \<and> trace (snd (run (createCheckoutSession env_down ''pur_1'' gold_body) world_start))
       = [PurchaseCreate
            \<lparr>purchase_id = ''pur_1'', userId = 1, targetRole = USER_GOLD, status = PENDING,
             amount = Some 129900, currency = Some ''THB'', gateway = Some ''stripe'',
             externalId = None\<rparr>,
          StripeSessionCreate
            \<lparr>line_item_price = gold_price,
             success_url =
               ''http://127.0.0.1:3000/membership/success?session_id={CHECKOUT_SESSION_ID}'',
             cancel_url = ''http://127.0.0.1:3000/membership/cancel'',
             metadata_purchaseId = ''pur_1'', metadata_userId = 1,
             metadata_targetRole = USER_GOLD\<rparr>]
   \<and> purchases (snd (run (createCheckoutSession env_down ''pur_1'' gold_body) world_start))
       = [\<lparr>purchase_id = ''pur_1'', userId = 1, targetRole = USER_GOLD, status = PENDING,
           amount = Some 129900, currency = Some ''THB'', gateway = Some ''stripe'',
           externalId = None\<rparr>]
   \<and> fst (run (createCheckoutSession env_down ''pur_1'' gold_body) world_start)
       = Json_error 500 ''connect ETIMEDOUT''
   \<and> purchases (snd (run (createCheckoutSession env_up ''pur_1'' gold_body) world_start))
       = [\<lparr>purchase_id = ''pur_1'', userId = 1, targetRole = USER_GOLD, status = PENDING,
           amount = Some 129900, currency = Some ''THB'', gateway = Some ''stripe'',
           externalId = Some ''cs_1''\<rparr>]"
proof -
  let ?plan = "\<lparr>plan_role = USER_GOLD, plan_amount = 129900, plan_currency = ''THB'',
               plan_label = ''Gold 1299''\<rparr>"
  have h: "body_userId gold_body = Some 1" "(1::int) \<noteq> 0"
    "truthy_str (body_priceId gold_body) = Some gold_price"
    "map_of STRIPE_PRICE_TO_PLAN gold_price = Some ?plan"
    "users world_start 1 = Some alice" "\<not> checkout_rejects (role alice) (plan_role ?plan)"
    "find_purchase_by_id ''pur_1'' (purchases world_start) = None"
    by (simp_all add: eval_defs example_defs)
  note down = C8_checkout_effects_in_order [OF h refl refl,
      where env = env_down
        and resp = "fst (run (createCheckoutSession env_down ''pur_1'' gold_body) world_start)"
        and w' = "snd (run (createCheckoutSession env_down ''pur_1'' gold_body) world_start)"]
  note up = C8_checkout_effects_in_order [OF h refl refl,
      where env = env_up
        and resp = "fst (run (createCheckoutSession env_up ''pur_1'' gold_body) world_start)"
        and w' = "snd (run (createCheckoutSession env_up ''pur_1'' gold_body) world_start)"]
  have d: "sessions_create env_down p = Inl ''connect ETIMEDOUT''" for p
    by (simp add: env_down_def)
  have u: "session_id (projr (sessions_create env_up p)) = ''cs_1''
        \<and> sessions_create env_up p = Inr (projr (sessions_create env_up p))" for p
    by (simp add: env_up_def)
  have np: "new_purchase ''pur_1'' 1 ?plan
      = \<lparr>purchase_id = ''pur_1'', userId = 1, targetRole = USER_GOLD, status = PENDING,
         amount = Some 129900, currency = Some ''THB'', gateway = Some ''stripe'',
         externalId = None\<rparr>"
    by (simp add: new_purchase_def)
  have sp: "session_params env_down gold_body gold_price (new_purchase ''pur_1'' 1 ?plan) 1 ?plan
      = \<lparr>line_item_price = gold_price,
         success_url =
           ''http://127.0.0.1:3000/membership/success?session_id={CHECKOUT_SESSION_ID}'',
         cancel_url = ''http://127.0.0.1:3000/membership/cancel'',
         metadata_purchaseId = ''pur_1'', metadata_userId = 1,
         metadata_targetRole = USER_GOLD\<rparr>"
    by (simp add: session_params_def new_purchase_def env_down_def gold_body_def str_or_def
        default_to_def Let_def)
  have tr: "trace world_start = []" "purchases world_start = []"
    by (simp_all add: world_start_def)
  from down have "trace (snd (run (createCheckoutSession env_down ''pur_1'' gold_body) world_start))
       = [PurchaseCreate (new_purchase ''pur_1'' 1 ?plan),
          StripeSessionCreate (session_params env_down gold_body gold_price
             (new_purchase ''pur_1'' 1 ?plan) 1 ?plan)]
     \<and> purchases (snd (run (createCheckoutSession env_down ''pur_1'' gold_body) world_start))
       = [new_purchase ''pur_1'' 1 ?plan]
     \<and> fst (run (createCheckoutSession env_down ''pur_1'' gold_body) world_start)
       = Json_error 500 ''connect ETIMEDOUT''"
    by (simp add: d tr)
  moreover from up have "purchases (snd (run (createCheckoutSession env_up ''pur_1'' gold_body) world_start))
       = [(new_purchase ''pur_1'' 1 ?plan)\<lparr>externalId := Some ''cs_1''\<rparr>]"
    using u [of "session_params env_up gold_body gold_price (new_purchase ''pur_1'' 1 ?plan) 1 ?plan"]
    by (auto simp: tr split: sum.splits)
  ultimately show ?thesis
    using h by (simp add: np sp [unfolded np])
qed

section \<open>Reconciliation\<close>

subsection \<open>What the webhook does, case by case\<close>

lemma run_webhook_bad_signature:
  "run (handleWebhook (Inl msg)) w
     = (Send_text 400 (''Webhook Error: '' @ msg),
        w\<lparr>console := console w @ [Error_webhook_verify msg]\<rparr>)"
  by (simp add: handleWebhook_def console_out_def)

lemma run_webhook_other_event:
  "event_type event \<noteq> ''checkout.session.completed'' \<Longrightarrow>
   run (handleWebhook (Inr event)) w = (Json_received, w)"
  by (simp add: handleWebhook_def)

lemma run_webhook_missing_metadata:
  "event_type event = ''checkout.session.completed'' \<Longrightarrow>
   truthy_str (meta_purchaseId (data_object event)) = None \<or> meta_targetRole (data_object event) = None \<Longrightarrow>
   run (handleWebhook (Inr event)) w
     = (Json_received, w\<lparr>console := console w @ [Warn_missing_metadata]\<rparr>)"
  by (auto simp: handleWebhook_def console_out_def Let_def split: option.split)

lemma run_webhook_not_found:
  "event_type event = ''checkout.session.completed'' \<Longrightarrow>
   truthy_str (meta_purchaseId (data_object event)) = Some i \<Longrightarrow>
   meta_targetRole (data_object event) = Some r \<Longrightarrow>
   find_purchase_by_id i (purchases w) = None \<Longrightarrow>
   run (handleWebhook (Inr event)) w = (Json_received, w)"
  by (simp add: handleWebhook_def prisma_purchase_findUnique_def Let_def)

lemma run_webhook_already_paid:
  "event_type event = ''checkout.session.completed'' \<Longrightarrow>
   truthy_str (meta_purchaseId (data_object event)) = Some i \<Longrightarrow>
   meta_targetRole (data_object event) = Some r \<Longrightarrow>
   find_purchase_by_id i (purchases w) = Some p \<Longrightarrow> status p = PAID \<Longrightarrow>
   run (handleWebhook (Inr event)) w = (Json_received, w)"
  by (simp add: handleWebhook_def prisma_purchase_findUnique_def Let_def)

lemma run_webhook_settles:
  assumes "event_type event = ''checkout.session.completed''"
    and "truthy_str (meta_purchaseId (data_object event)) = Some i"
    and "meta_targetRole (data_object event) = Some r"
    and "find_purchase_by_id i (purchases w) = Some p" and "status p \<noteq> PAID"
  shows "run (handleWebhook (Inr event)) w
     = (Json_received,
        (case users w (userId p) of
           Some u \<Rightarrow>
             if webhook_upgrades (role u) r
             then w\<lparr>purchases := map (\<lambda>q. if purchase_id q = i then apply_data (paid_data (data_object event) p None) q else q) (purchases w),
                    trace := trace w @ [PurchaseUpdate i (paid_data (data_object event) p None), UserUpdate (userId p) r],
                    users := (users w)(userId p \<mapsto> u\<lparr>role := r\<rparr>),
                    console := console w @ cross_check (data_object event) r @ [Log_upgraded (userId p) r]\<rparr>
             else w\<lparr>purchases := map (\<lambda>q. if purchase_id q = i then apply_data (paid_data (data_object event) p None) q else q) (purchases w),
                    trace := trace w @ [PurchaseUpdate i (paid_data (data_object event) p None)],
                    console := console w @ cross_check (data_object event) r @ [Log_skip_role_update]\<rparr>
         | None \<Rightarrow>
             w\<lparr>purchases := map (\<lambda>q. if purchase_id q = i then apply_data (paid_data (data_object event) p None) q else q) (purchases w),
               trace := trace w @ [PurchaseUpdate i (paid_data (data_object event) p None)],
               console := console w @ cross_check (data_object event) r @ [Log_skip_role_update]\<rparr>))"
proof -
  have pid: "purchase_id p = i" using assms(4) by (rule find_purchase_by_id_Some)
  show ?thesis
    using assms pid
    by (simp add: handleWebhook_def prim_defs run_console_lines Let_def split: option.split)
qed

subsection \<open>What the verify endpoint does, case by case\<close>

lemma run_verify_find_purchase:
  "run (verify_find_purchase s k) w = run (k (verify_resolve s (purchases w))) w"
  by (simp add: verify_find_purchase_def verify_resolve_def prisma_purchase_findFirst_externalId_def
      prisma_purchase_findUnique_def split: option.split)

lemma run_verify_find_user:
  "run (verify_find_user purchase k) w
     = run (k (case purchase of Some p \<Rightarrow> users w (userId p) | None \<Rightarrow> None)) w"
  by (simp add: verify_find_user_def prisma_user_findUnique_def split: option.split)

lemma run_verify_settle_skip:
  "purchase = None \<or> user = None \<or> \<not> isPaid \<Longrightarrow>
   run (verify_settle catch s isPaid purchase user k) w = run (k purchase False False None) w"
  by (auto simp: verify_settle_def split: option.split)



lemma run_verify_unresolved:
  assumes "str_or q [] = sid" "sid \<noteq> []" "sessions_retrieve env sid = Inr s"
    and "verify_resolve s (purchases w) = None"
  shows "run (verifySession env q) w
     = (Json_verify (verify_body s None None False False None), w)"
  using assms
  by (simp add: verifySession_def Let_def stripe_checkout_sessions_retrieve_def
      run_verify_find_purchase run_verify_find_user run_verify_settle_skip)

lemma run_verify_no_effect:
  assumes "str_or q [] = sid" "sid \<noteq> []" "sessions_retrieve env sid = Inr s"
    and "verify_resolve s (purchases w) = Some p"
    and "users w (userId p) = None \<or> \<not> (payment_status s = Paid \<or> session_status s = Some Complete)"
  shows "run (verifySession env q) w
     = (Json_verify (verify_body s (Some p) (users w (userId p)) False False None), w)"
proof -
  have skip: "run (verify_settle catch s (payment_status s = Paid \<or> session_status s = Some Complete)
          (Some p) (users w (userId p)) k) w = run (k (Some p) False False None) w" for catch k
    using assms(5) by (intro run_verify_settle_skip) blast
  from assms(1-4) show ?thesis
    by (simp add: verifySession_def Let_def stripe_checkout_sessions_retrieve_def
      run_verify_find_purchase run_verify_find_user skip)
qed

lemma run_verify_settles:
  assumes "str_or q [] = sid" "sid \<noteq> []" "sessions_retrieve env sid = Inr s"
    and "verify_resolve s (purchases w) = Some p"
    and "users w (userId p) = Some u"
    and "payment_status s = Paid \<or> session_status s = Some Complete"
    and "find_purchase_by_id (purchase_id p) (purchases w) = Some p"
  shows "run (verifySession env q) w
     = (let p' = (if status p \<noteq> PAID then apply_data (paid_data s p (Some ''stripe'')) p else p);
            w1 = (if status p \<noteq> PAID
                  then w\<lparr>purchases := map (\<lambda>q. if purchase_id q = purchase_id p
                                                   then apply_data (paid_data s p (Some ''stripe'')) q
                                                   else q) (purchases w),
                         trace := trace w @ [PurchaseUpdate (purchase_id p) (paid_data s p (Some ''stripe''))]\<rparr>
                  else w)
        in if verify_upgrades (role u) (targetRole p)
           then (Json_verify (verify_body s (Some p') (Some (u\<lparr>role := targetRole p\<rparr>))
                               (status p \<noteq> PAID) True (Some (targetRole p))),
                 w1\<lparr>users := (users w)(userId p \<mapsto> u\<lparr>role := targetRole p\<rparr>),
                    trace := trace w1 @ [UserUpdate (userId p) (targetRole p)]\<rparr>)
           else (Json_verify (verify_body s (Some p') (Some u) (status p \<noteq> PAID) False None), w1))"
  using assms
  by (simp add: verifySession_def Let_def stripe_checkout_sessions_retrieve_def
      run_verify_find_purchase run_verify_find_user verify_settle_def
      prisma_purchase_update_def prisma_user_update_def apply_data_def paid_data_def)

lemma run_verify_already_paid:
  assumes "str_or q [] = sid" "sid \<noteq> []" "sessions_retrieve env sid = Inr s"
    and "verify_resolve s (purchases w) = Some p" and "status p = PAID"
    and "users w (userId p) = Some u"
    and "payment_status s = Paid \<or> session_status s = Some Complete"
  shows "run (verifySession env q) w
     = (if verify_upgrades (role u) (targetRole p)
        then (Json_verify (verify_body s (Some p) (Some (u\<lparr>role := targetRole p\<rparr>))
                            False True (Some (targetRole p))),
              w\<lparr>users := (users w)(userId p \<mapsto> u\<lparr>role := targetRole p\<rparr>),
                trace := trace w @ [UserUpdate (userId p) (targetRole p)]\<rparr>)
        else (Json_verify (verify_body s (Some p) (Some u) False False None), w))"
  using assms
  by (simp add: verifySession_def Let_def stripe_checkout_sessions_retrieve_def
      run_verify_find_purchase run_verify_find_user verify_settle_def prisma_user_update_def)

subsection \<open>The world after a settling request, field by field\<close>

lemma webhook_settles_fields:
  assumes "truthy_str (meta_purchaseId s) = Some i" and "meta_targetRole s = Some r"
    and "find_purchase_by_id i (purchases w) = Some p" and "status p \<noteq> PAID"
    and "run (handleWebhook (Inr \<lparr>event_type = ''checkout.session.completed'', data_object = s\<rparr>)) w
           = (resp, w')"
  shows "resp = Json_received"
    and "purchases w' = map (\<lambda>q. if purchase_id q = i then apply_data (paid_data s p None) q else q)
                          (purchases w)"
    and "users w' = (case users w (userId p) of
                      Some u \<Rightarrow> if webhook_upgrades (role u) r
                                then (users w)(userId p \<mapsto> u\<lparr>role := r\<rparr>) else users w
                    | None \<Rightarrow> users w)"
    and "trace w' = trace w @ PurchaseUpdate i (paid_data s p None)
                     # (case users w (userId p) of
                          Some u \<Rightarrow> if webhook_upgrades (role u) r
                                    then [UserUpdate (userId p) r] else []
                        | None \<Rightarrow> [])"
    and "set (cross_check s r) \<subseteq> set (console w')"
proof -
  let ?ev = "\<lparr>event_type = ''checkout.session.completed'', data_object = s\<rparr>"
  have ev: "event_type ?ev = ''checkout.session.completed''" "data_object ?ev = s" by simp_all
  note eq = run_webhook_settles [of ?ev i r w p, unfolded ev, OF refl assms(1,2,3,4)]
  from eq assms(5) show "resp = Json_received" by simp
  from eq assms(5) show "purchases w' = map (\<lambda>q. if purchase_id q = i then apply_data (paid_data s p None) q else q)
                          (purchases w)"
    by (auto split: option.splits if_splits)
  from eq assms(5) show "users w' = (case users w (userId p) of
                      Some u \<Rightarrow> if webhook_upgrades (role u) r
                                then (users w)(userId p \<mapsto> u\<lparr>role := r\<rparr>) else users w
                    | None \<Rightarrow> users w)"
    by (auto split: option.splits if_splits)
  from eq assms(5) show "trace w' = trace w @ PurchaseUpdate i (paid_data s p None)
                     # (case users w (userId p) of
                          Some u \<Rightarrow> if webhook_upgrades (role u) r
                                    then [UserUpdate (userId p) r] else []
                        | None \<Rightarrow> [])"
    by (auto split: option.splits if_splits)
  from eq assms(5) show "set (cross_check s r) \<subseteq> set (console w')"
    by (auto split: option.splits if_splits)
qed

lemma verify_settles_fields:
  assumes "sid \<noteq> []" and "sessions_retrieve env sid = Inr s"
    and "verify_resolve s (purchases w) = Some p"
    and "users w (userId p) = Some u"
    and "payment_status s = Paid \<or> session_status s = Some Complete"
    and "distinct (map purchase_id (purchases w))"
    and "run (verifySession env (Some sid)) w = (resp, w')"
  shows "resp = Json_verify (verify_body s
            (Some (if status p \<noteq> PAID then apply_data (paid_data s p (Some ''stripe'')) p else p))
            (Some (if verify_upgrades (role u) (targetRole p) then u\<lparr>role := targetRole p\<rparr> else u))
            (status p \<noteq> PAID) (verify_upgrades (role u) (targetRole p))
            (if verify_upgrades (role u) (targetRole p) then Some (targetRole p) else None))"
    and "purchases w' = (if status p \<noteq> PAID
                         then map (\<lambda>q. if purchase_id q = purchase_id p
                                        then apply_data (paid_data s p (Some ''stripe'')) q else q)
                                (purchases w)
                         else purchases w)"
    and "users w' = (if verify_upgrades (role u) (targetRole p)
                     then (users w)(userId p \<mapsto> u\<lparr>role := targetRole p\<rparr>) else users w)"
    and "trace w' = trace w
           @ (if status p \<noteq> PAID
              then [PurchaseUpdate (purchase_id p) (paid_data s p (Some ''stripe''))] else [])
           @ (if verify_upgrades (role u) (targetRole p)
              then [UserUpdate (userId p) (targetRole p)] else [])"
    and "console w' = console w"
proof -
  have q: "str_or (Some sid) [] = sid" using assms(1) by (simp add: str_or_def)
  have "p \<in> set (purchases w)" using assms(3) by (rule verify_resolve_mem)
  with assms(6) have self: "find_purchase_by_id (purchase_id p) (purchases w) = Some p"
    by (rule find_purchase_by_id_distinct)
  note eq = run_verify_settles [OF q assms(1,2,3,4,5) self]
  from eq assms(7) show "resp = Json_verify (verify_body s
            (Some (if status p \<noteq> PAID then apply_data (paid_data s p (Some ''stripe'')) p else p))
            (Some (if verify_upgrades (role u) (targetRole p) then u\<lparr>role := targetRole p\<rparr> else u))
            (status p \<noteq> PAID) (verify_upgrades (role u) (targetRole p))
            (if verify_upgrades (role u) (targetRole p) then Some (targetRole p) else None))"
    by (auto simp: Let_def split: if_splits)
  from eq assms(7) show "purchases w' = (if status p \<noteq> PAID
                         then map (\<lambda>q. if purchase_id q = purchase_id p
                                        then apply_data (paid_data s p (Some ''stripe'')) q else q)
                                (purchases w)
                         else purchases w)"
    by (auto simp: Let_def split: if_splits)
  from eq assms(7) show "users w' = (if verify_upgrades (role u) (targetRole p)
                     then (users w)(userId p \<mapsto> u\<lparr>role := targetRole p\<rparr>) else users w)"
    by (auto simp: Let_def split: if_splits)
  from eq assms(7) show "trace w' = trace w
           @ (if status p \<noteq> PAID
              then [PurchaseUpdate (purchase_id p) (paid_data s p (Some ''stripe''))] else [])
           @ (if verify_upgrades (role u) (targetRole p)
              then [UserUpdate (userId p) (targetRole p)] else [])"
    by (auto simp: Let_def split: if_splits)
  from eq assms(7) show "console w' = console w"
    by (auto simp: Let_def split: if_splits)
qed

section \<open>Events that match no purchase\<close>

text \<open>
  Claim C7. When the session id of the event is the external id of no stored purchase
  and the purchase id in its metadata (if any) is the id of none, \<^verbatim>\<open>handleWebhook\<close>
  answers \<^verbatim>\<open>{received: true}\<close> and leaves users, purchases and the write trace as they
  were, and \<^verbatim>\<open>verifySession\<close> leaves the whole world as it was.
\<close>

theorem C7_unresolved_event_writes_nothing:
  assumes "find_purchase_by_externalId (session_id s) (purchases w) = None"
    and "\<forall>i. truthy_str (meta_purchaseId s) = Some i \<longrightarrow> find_purchase_by_id i (purchases w) = None"
  shows "(let (resp, w') = run (handleWebhook (Inr \<lparr>event_type = ty, data_object = s\<rparr>)) w
          in resp = Json_received \<and> users w' = users w \<and> purchases w' = purchases w \<and> trace w' = trace w)
       \<and> (sid \<noteq> [] \<and> sessions_retrieve env sid = Inr s \<longrightarrow>
            run (verifySession env (Some sid)) w
              = (Json_verify (verify_body s None None False False None), w))"
proof -
  let ?ev = "\<lparr>event_type = ty, data_object = s\<rparr>"
  have wh: "run (handleWebhook (Inr ?ev)) w = (Json_received, w)
      \<or> run (handleWebhook (Inr ?ev)) w = (Json_received, w\<lparr>console := console w @ [Warn_missing_metadata]\<rparr>)"
  proof (cases "ty = ''checkout.session.completed''")
    case False
    then show ?thesis by (simp add: run_webhook_other_event)
  next
    case True
    show ?thesis
    proof (cases "truthy_str (meta_purchaseId s) = None \<or> meta_targetRole s = None")
      case True
      with \<open>ty = _\<close> show ?thesis by (simp add: run_webhook_missing_metadata)
    next
      case False
      then obtain i r where ir: "truthy_str (meta_purchaseId s) = Some i" "meta_targetRole s = Some r"
        by auto
      with assms(2) have "find_purchase_by_id i (purchases w) = None" by simp
      with ir True show ?thesis by (simp add: run_webhook_not_found)
    qed
  qed
  have res: "verify_resolve s (purchases w) = None"
    using assms by (simp add: verify_resolve_def split: option.split)
  have vf: "sid \<noteq> [] \<and> sessions_retrieve env sid = Inr s \<longrightarrow>
            run (verifySession env (Some sid)) w
              = (Json_verify (verify_body s None None False False None), w)"
    using res by (auto intro!: run_verify_unresolved simp: str_or_def)
  from wh vf show ?thesis by auto
qed

theorem C7_unresolved_event_writes_nothing_witness:
  "find_purchase_by_externalId (session_id gold_session) (purchases world_start) = None
   \<and> truthy_str (meta_purchaseId gold_session) = Some ''pur_1''
   \<and> find_purchase_by_id ''pur_1'' (purchases world_start) = None
   \<and> (let (resp, w') = run (handleWebhook (Inr gold_event)) world_start
      in resp = Json_received \<and> users w' = users world_start
         \<and> purchases w' = purchases world_start \<and> trace w' = trace world_start)
   \<and> run (verifySession env_up (Some ''cs_1'')) world_start
       = (Json_verify (verify_body gold_session None None False False None), world_start)"
proof -
  have h: "find_purchase_by_externalId (session_id gold_session) (purchases world_start) = None"
    "\<forall>i. truthy_str (meta_purchaseId gold_session) = Some i
           \<longrightarrow> find_purchase_by_id i (purchases world_start) = None"
    by (simp_all add: world_start_def find_purchase_by_externalId_def find_purchase_by_id_def)
  have r: "''cs_1'' \<noteq> [] \<and> sessions_retrieve env_up ''cs_1'' = Inr gold_session"
    by (simp add: env_up_def)
  have m: "truthy_str (meta_purchaseId gold_session) = Some ''pur_1''"
    "find_purchase_by_id ''pur_1'' (purchases world_start) = None"
    by (simp_all add: eval_defs example_defs)
  from C7_unresolved_event_writes_nothing [OF h, of "''checkout.session.completed''" "''cs_1''" env_up]
    h(1) m r
  show ?thesis by (simp add: gold_event_def)
qed

text \<open>
  Claim C10. When \<^verbatim>\<open>verifySession\<close> resolves a purchase whose user id is the id of no
  user, the call leaves the world as it was, whatever the gateway reports (so a PENDING
  purchase stays PENDING and no role changes), and it answers with the purchase's
  current state, a null user and no effect flagged.
\<close>

theorem C10_verify_without_user_writes_nothing:
  assumes "sid \<noteq> []" and "sessions_retrieve env sid = Inr s"
    and "verify_resolve s (purchases w) = Some p"
    and "users w (userId p) = None"
  shows "run (verifySession env (Some sid)) w
     = (Json_verify
          \<lparr>body_sessionId = session_id s,
           body_payment_status = payment_status s,
           body_amount_total = amount_total s,
           body_currency = map_option toUpperCase (session_currency s),
           body_purchase = Some (purchase_id p, status p, targetRole p),
           body_user = None,
           didMarkPaid = False, didUpgrade = False, upgradedTo = None\<rparr>, w)"
proof -
  have "str_or (Some sid) [] = sid" using assms(1) by (simp add: str_or_def)
  from run_verify_no_effect [OF this assms(1,2,3)] assms(4)
  show ?thesis by (simp add: verify_body_def)
qed

theorem C10_verify_without_user_writes_nothing_witness:
  "''cs_1'' \<noteq> [] \<and> sessions_retrieve env_up ''cs_1'' = Inr gold_session
   \<and> payment_status gold_session = Paid
   \<and> verify_resolve gold_session (purchases world_no_user)
       = Some gold_purchase
   \<and> users world_no_user (userId gold_purchase) = None
   \<and> run (verifySession env_up (Some ''cs_1'')) world_no_user
       = (Json_verify
            \<lparr>body_sessionId = ''cs_1'', body_payment_status = Paid,
             body_amount_total = Some 129900, body_currency = Some ''THB'',
             body_purchase = Some (''pur_1'', PENDING, USER_GOLD), body_user = None,
             didMarkPaid = False, didUpgrade = False, upgradedTo = None\<rparr>,
          world_no_user)"
proof -
  have h: "''cs_1'' \<noteq> []" "sessions_retrieve env_up ''cs_1'' = Inr gold_session"
    "verify_resolve gold_session (purchases world_no_user)
       = Some gold_purchase"
    "users world_no_user (userId gold_purchase) = None"
    by (simp_all add: eval_defs example_defs)
  from C10_verify_without_user_writes_nothing [OF h] h
  show ?thesis by (simp add: gold_session_def gold_purchase_def toUpperCase_def)
qed

section \<open>Settlement\<close>

text \<open>
  Claim C9. A \<^verbatim>\<open>checkout.session.completed\<close> event that resolves a PENDING purchase and
  reports an amount or a currency different from the registry's plan for the purchase's
  target role still settles: the webhook answers \<^verbatim>\<open>{received: true}\<close>, the purchase
  becomes PAID with the session id as external id, with the reported amount when one is
  reported (the stored amount otherwise) and with the reported currency in upper case
  when one is reported, and the role check is made (the user's role becomes the
  event's target role exactly when that role outranks it). When the event's target role
  is the purchase's, the mismatch leaves a warning on the console.
\<close>

theorem C9_mismatch_does_not_block_settlement:
  assumes "truthy_str (meta_purchaseId s) = Some i" and "meta_targetRole s = Some r"
    and "find_purchase_by_id i (purchases w) = Some p" and "status p = PENDING"
    and "find (\<lambda>pl. plan_role pl = targetRole p) (map snd STRIPE_PRICE_TO_PLAN) = Some plan"
    and "(\<exists>got. amount_total s = Some got \<and> got \<noteq> plan_amount plan)
       \<or> (\<exists>cur. truthy_str (session_currency s) = Some cur
                \<and> toUpperCase cur \<noteq> toUpperCase (plan_currency plan))"
    and "run (handleWebhook (Inr \<lparr>event_type = ''checkout.session.completed'',
                               data_object = s\<rparr>)) w = (resp, w')"
  shows "resp = Json_received
       \<and> (\<exists>p'. find_purchase_by_id i (purchases w') = Some p'
              \<and> status p' = PAID \<and> externalId p' = Some (session_id s)
              \<and> amount p' = (case amount_total s of Some got \<Rightarrow> Some got | None \<Rightarrow> amount p)
              \<and> currency p'
                  = Some (toUpperCase (str_or (session_currency s) (str_or (currency p) ''THB'')))
              \<and> (amount_total s = Some a \<longrightarrow> amount p' = Some a)
              \<and> (truthy_str (session_currency s) = Some c \<longrightarrow> currency p' = Some (toUpperCase c)))
       \<and> users w' = (case users w (userId p) of
                       Some u \<Rightarrow> if webhook_upgrades (role u) r
                                 then (users w)(userId p \<mapsto> u\<lparr>role := r\<rparr>) else users w
                     | None \<Rightarrow> users w)
       \<and> (r = targetRole p \<longrightarrow> cross_check s r \<noteq> [] \<and> set (cross_check s r) \<subseteq> set (console w'))"
proof -
  have np: "status p \<noteq> PAID" using assms(4) by simp
  let ?p' = "apply_data (paid_data s p None) p"
  have d: "status ?p' = PAID" "externalId ?p' = Some (session_id s)"
    "amount ?p' = (case amount_total s of Some got \<Rightarrow> Some got | None \<Rightarrow> amount p)"
    "currency ?p' = Some (toUpperCase (str_or (session_currency s) (str_or (currency p) ''THB'')))"
    by (simp_all add: apply_data_def paid_data_def split: option.split)
  have da: "amount_total s = Some a \<longrightarrow> amount ?p' = Some a"
    by (simp add: d(3))
  have dc: "truthy_str (session_currency s) = Some c \<longrightarrow> currency ?p' = Some (toUpperCase c)"
    by (auto simp: d(4) truthy_str_def str_or_def split: option.splits if_splits)
  have pid: "purchase_id p = i" using assms(3) by (rule find_purchase_by_id_Some)
  have warn: "r = targetRole p \<Longrightarrow> cross_check s r \<noteq> []"
    using assms(5,6) by (auto simp: cross_check_def)
  note f = webhook_settles_fields [OF assms(1,2,3) np assms(7)]
  have "find_purchase_by_id i (purchases w') = Some ?p'"
    using assms(3) pid by (simp add: f(2) find_purchase_by_id_map)
  with d da dc have "\<exists>p'. find_purchase_by_id i (purchases w') = Some p'
              \<and> status p' = PAID \<and> externalId p' = Some (session_id s)
              \<and> amount p' = (case amount_total s of Some got \<Rightarrow> Some got | None \<Rightarrow> amount p)
              \<and> currency p'
                  = Some (toUpperCase (str_or (session_currency s) (str_or (currency p) ''THB'')))
              \<and> (amount_total s = Some a \<longrightarrow> amount p' = Some a)
              \<and> (truthy_str (session_currency s) = Some c \<longrightarrow> currency p' = Some (toUpperCase c))"
    by blast
  with f(1,3,5) warn show ?thesis by auto
qed

theorem C9_mismatch_does_not_block_settlement_witness:
  "truthy_str (meta_purchaseId underpaid_session) = Some ''pur_1''
   \<and> meta_targetRole underpaid_session = Some USER_GOLD
   \<and> find_purchase_by_id ''pur_1'' (purchases world_pending) = Some gold_purchase
   \<and> status gold_purchase = PENDING
   \<and> find (\<lambda>pl. plan_role pl = targetRole gold_purchase) (map snd STRIPE_PRICE_TO_PLAN)
       = Some \<lparr>plan_role = USER_GOLD, plan_amount = 129900, plan_currency = ''THB'',
               plan_label = ''Gold 1299''\<rparr>
   \<and> amount_total underpaid_session = Some 100 \<and> (100::int) \<noteq> 129900
   \<and> truthy_str (session_currency underpaid_session) = Some ''thb''
   \<and> fst (run (handleWebhook (Inr \<lparr>event_type = ''checkout.session.completed'',
                                   data_object = underpaid_session\<rparr>)) world_pending)
       = Json_received
   \<and> (\<exists>p'. find_purchase_by_id ''pur_1''
              (purchases (snd (run (handleWebhook
                 (Inr \<lparr>event_type = ''checkout.session.completed'',
                       data_object = underpaid_session\<rparr>)) world_pending))) = Some p'
          \<and> status p' = PAID \<and> amount p' = Some 100 \<and> currency p' = Some ''THB'')
   \<and> users (snd (run (handleWebhook (Inr \<lparr>event_type = ''checkout.session.completed'',
                                         data_object = underpaid_session\<rparr>)) world_pending)) 1
       = Some (alice\<lparr>role := USER_GOLD\<rparr>)
   \<and> Warn_amount_mismatch 100 129900
       \<in> set (console (snd (run (handleWebhook
                 (Inr \<lparr>event_type = ''checkout.session.completed'',
                       data_object = underpaid_session\<rparr>)) world_pending)))"
proof -
  let ?s = "underpaid_session"
  let ?plan = "\<lparr>plan_role = USER_GOLD, plan_amount = 129900, plan_currency = ''THB'',
               plan_label = ''Gold 1299''\<rparr>"
  let ?r = "run (handleWebhook (Inr \<lparr>event_type = ''checkout.session.completed'',
                                    data_object = ?s\<rparr>)) world_pending"
  have h: "truthy_str (meta_purchaseId ?s) = Some ''pur_1''" "meta_targetRole ?s = Some USER_GOLD"
    "find_purchase_by_id ''pur_1'' (purchases world_pending) = Some gold_purchase"
    "status gold_purchase = PENDING"
    "find (\<lambda>pl. plan_role pl = targetRole gold_purchase) (map snd STRIPE_PRICE_TO_PLAN) = Some ?plan"
    by (simp_all add: eval_defs example_defs)
  have am: "amount_total ?s = Some 100" "(100::int) \<noteq> 129900"
    "truthy_str (session_currency ?s) = Some ''thb''"
    by (simp_all add: eval_defs example_defs)
  then have mis: "(\<exists>got. amount_total ?s = Some got \<and> got \<noteq> plan_amount ?plan)
       \<or> (\<exists>cur. truthy_str (session_currency ?s) = Some cur
                \<and> toUpperCase cur \<noteq> toUpperCase (plan_currency ?plan))"
    by simp
  have facts: "users world_pending (userId gold_purchase) = Some alice"
    "webhook_upgrades (role alice) USER_GOLD" "targetRole gold_purchase = USER_GOLD"
    "userId gold_purchase = 1" "toUpperCase ''thb'' = ''THB''"
    "cross_check ?s USER_GOLD = [Warn_amount_mismatch 100 129900]"
    by (simp_all add: eval_defs example_defs)
  have r: "?r = (fst ?r, snd ?r)" by simp
  from C9_mismatch_does_not_block_settlement [OF h mis r, of 100 "''thb''"] h am facts
  show ?thesis by auto
qed

text \<open>
  Claim C3, as amended. A \<^verbatim>\<open>verifySession\<close> call that resolves a purchase already PAID,
  with the gateway reporting the session paid and the purchase's user stored, leaves
  the purchases as they are and re-evaluates the rank check: the user's role becomes
  the purchase's target role when that role outranks it, and stays otherwise; the role
  update is then the only write. A
  \<^verbatim>\<open>handleWebhook\<close> call that resolves a purchase already PAID returns
  \<^verbatim>\<open>{received: true}\<close> at its idempotency gate and leaves the world as it was.
\<close>

theorem C3_verify_rechecks_webhook_returns:
  "(sid \<noteq> [] \<and> sessions_retrieve env sid = Inr s
      \<and> verify_resolve s (purchases w) = Some p \<and> status p = PAID
      \<and> users w (userId p) = Some u
      \<and> (payment_status s = Paid \<or> session_status s = Some Complete)
    \<longrightarrow> purchases (snd (run (verifySession env (Some sid)) w)) = purchases w
      \<and> users (snd (run (verifySession env (Some sid)) w))
          = (if verify_upgrades (role u) (targetRole p)
             then (users w)(userId p \<mapsto> u\<lparr>role := targetRole p\<rparr>) else users w)
      \<and> trace (snd (run (verifySession env (Some sid)) w))
          = trace w @ (if verify_upgrades (role u) (targetRole p)
                       then [UserUpdate (userId p) (targetRole p)] else []))
   \<and> (webhook_resolve s (purchases w) = Some p \<and> status p = PAID
    \<longrightarrow> run (handleWebhook (Inr \<lparr>event_type = ''checkout.session.completed'', data_object = s\<rparr>)) w
          = (Json_received, w))"
proof (intro conjI impI)
  assume a: "sid \<noteq> [] \<and> sessions_retrieve env sid = Inr s
      \<and> verify_resolve s (purchases w) = Some p \<and> status p = PAID
      \<and> users w (userId p) = Some u
      \<and> (payment_status s = Paid \<or> session_status s = Some Complete)"
  then have h: "sid \<noteq> []" "sessions_retrieve env sid = Inr s"
    "verify_resolve s (purchases w) = Some p" "status p = PAID" "users w (userId p) = Some u"
    "payment_status s = Paid \<or> session_status s = Some Complete"
    by simp_all
  have q: "str_or (Some sid) [] = sid" using h(1) by (simp add: str_or_def)
  note eq = run_verify_already_paid [OF q h]
  show "purchases (snd (run (verifySession env (Some sid)) w)) = purchases w"
    by (simp add: eq)
  show "users (snd (run (verifySession env (Some sid)) w))
          = (if verify_upgrades (role u) (targetRole p)
             then (users w)(userId p \<mapsto> u\<lparr>role := targetRole p\<rparr>) else users w)"
    by (simp add: eq)
  show "trace (snd (run (verifySession env (Some sid)) w))
          = trace w @ (if verify_upgrades (role u) (targetRole p)
                       then [UserUpdate (userId p) (targetRole p)] else [])"
    by (simp add: eq)
next
  assume a: "webhook_resolve s (purchases w) = Some p \<and> status p = PAID"
  then obtain i r where "truthy_str (meta_purchaseId s) = Some i" "meta_targetRole s = Some r"
    "find_purchase_by_id i (purchases w) = Some p"
    by (auto simp: webhook_resolve_def split: option.splits)
  with a show "run (handleWebhook (Inr \<lparr>event_type = ''checkout.session.completed'', data_object = s\<rparr>)) w
          = (Json_received, w)"
    by (intro run_webhook_already_paid) auto
qed

theorem C3_verify_rechecks_webhook_returns_witness:
  "''cs_1'' \<noteq> [] \<and> sessions_retrieve env_up ''cs_1'' = Inr gold_session
   \<and> verify_resolve gold_session (purchases world_paid_not_upgraded)
       = Some (gold_purchase\<lparr>status := PAID\<rparr>)
   \<and> webhook_resolve gold_session (purchases world_paid_not_upgraded)
       = Some (gold_purchase\<lparr>status := PAID\<rparr>)
   \<and> users world_paid_not_upgraded 1 = Some alice
   \<and> payment_status gold_session = Paid
   \<and> purchases (snd (run (verifySession env_up (Some ''cs_1'')) world_paid_not_upgraded))
       = purchases world_paid_not_upgraded
   \<and> users (snd (run (verifySession env_up (Some ''cs_1'')) world_paid_not_upgraded)) 1
       = Some (alice\<lparr>role := USER_GOLD\<rparr>)
   \<and> trace (snd (run (verifySession env_up (Some ''cs_1'')) world_paid_not_upgraded))
       = [UserUpdate 1 USER_GOLD]
   \<and> run (handleWebhook (Inr gold_event)) world_paid_not_upgraded
       = (Json_received, world_paid_not_upgraded)"
proof -
  let ?p = "gold_purchase\<lparr>status := PAID\<rparr>"
  have h: "''cs_1'' \<noteq> []" "sessions_retrieve env_up ''cs_1'' = Inr gold_session"
    "verify_resolve gold_session (purchases world_paid_not_upgraded) = Some ?p"
    "webhook_resolve gold_session (purchases world_paid_not_upgraded) = Some ?p"
    "status ?p = PAID" "users world_paid_not_upgraded (userId ?p) = Some alice"
    "payment_status gold_session = Paid"
    "verify_upgrades (role alice) (targetRole ?p)" "userId ?p = 1" "targetRole ?p = USER_GOLD"
    "trace world_paid_not_upgraded = []"
    by (simp_all add: eval_defs example_defs)
  from C3_verify_rechecks_webhook_returns
         [of "''cs_1''" env_up gold_session world_paid_not_upgraded ?p alice] h
  show ?thesis by (simp add: gold_event_def)
qed

text \<open>Claim C3 as the specification states it fails for the webhook: with the purchase
  PAID and Alice still a plain user, for whom the gold role is an upgrade, the webhook
  leaves her role as it is.\<close>

theorem C3_webhook_skips_recheck_counterexample:
  "webhook_resolve gold_session (purchases world_paid_not_upgraded)
     = Some (gold_purchase\<lparr>status := PAID\<rparr>)
   \<and> users world_paid_not_upgraded 1 = Some alice
   \<and> webhook_upgrades (role alice) USER_GOLD
   \<and> users (snd (run (handleWebhook (Inr gold_event)) world_paid_not_upgraded)) 1 = Some alice"
  by (simp add: eval_defs example_defs prisma_purchase_findUnique_def)

section \<open>Sessions linked to the store\<close>




lemma targetRole_apply_data:
  "targetRole (apply_data d q) = targetRole q"
  by (simp add: apply_data_def)

lemma externalId_apply_data:
  "data_externalId d = Some e \<Longrightarrow> externalId (apply_data d q) = Some e"
  by (simp add: apply_data_def)

lemma linked_after_update:
  assumes "linked s ps" and "data_externalId d = Some e"
    and "e = session_id s \<longrightarrow> truthy_str (meta_purchaseId s) = Some i"
  shows "linked s (map (\<lambda>q. if purchase_id q = i then apply_data d q else q) ps)"
proof -
  let ?f = "\<lambda>q. if purchase_id q = i then apply_data d q else q"
  have ids: "map purchase_id (map ?f ps) = map purchase_id ps"
    by (rule distinct_map_update) simp
  have d: "distinct (map purchase_id (map ?f ps))"
    using assms(1) unfolding ids by (simp add: linked_def)
  have i1: "truthy_str (meta_purchaseId s) = Some (purchase_id q')"
    if "q' \<in> set (map ?f ps)" and "externalId q' = Some (session_id s)" for q'
  proof -
    from that(1) obtain q where q: "q \<in> set ps" "q' = ?f q" by auto
    show ?thesis
    proof (cases "purchase_id q = i")
      case True
      with q that(2) assms(2) have "e = session_id s" by (simp add: externalId_apply_data)
      with assms(3) True q show ?thesis by simp
    next
      case False
      with q that(2) assms(1) show ?thesis by (simp add: linked_def)
    qed
  qed
  have i2: "meta_targetRole s = Some (targetRole q')"
    if "q' \<in> set (map ?f ps)" and "truthy_str (meta_purchaseId s) = Some (purchase_id q')" for q'
  proof -
    from that(1) obtain q where q: "q \<in> set ps" "q' = ?f q" by auto
    then have "purchase_id q' = purchase_id q" "targetRole q' = targetRole q"
      by (simp_all add: targetRole_apply_data)
    with q(1) that(2) assms(1) show ?thesis by (simp add: linked_def)
  qed
  from d i1 i2 show ?thesis unfolding linked_def by blast
qed

lemma checkout_links_session:
  assumes "distinct (map purchase_id ps)" and "find_purchase_by_id newId ps = None"
    and "\<forall>p \<in> set ps. externalId p \<noteq> Some (session_id session)"
    and "truthy_str (meta_purchaseId session) = Some newId"
    and "meta_targetRole session = Some (plan_role plan)"
  shows "linked session (ps @ [apply_data (link_data session) (new_purchase newId uid plan)])"
proof -
  let ?row = "apply_data (link_data session) (new_purchase newId uid plan)"
  have row: "purchase_id ?row = newId" "targetRole ?row = plan_role plan"
    by (simp_all add: apply_data_def new_purchase_def)
  have fresh: "\<forall>q \<in> set ps. purchase_id q \<noteq> newId"
    using assms(2) by (simp add: find_purchase_by_id_None)
  have d: "distinct (map purchase_id (ps @ [?row]))"
    using assms(1) fresh row(1) by auto
  from d assms(3,4,5) fresh row show ?thesis
    unfolding linked_def by auto
qed

lemma checkout_run_links_session:
  assumes "body_userId body = Some uid" and "uid \<noteq> 0"
    and "truthy_str (body_priceId body) = Some priceId"
    and "map_of STRIPE_PRICE_TO_PLAN priceId = Some plan"
    and "users w uid = Some user" and "\<not> checkout_rejects (role user) (plan_role plan)"
    and "find_purchase_by_id newId (purchases w) = None"
    and "sessions_create env (session_params env body priceId (new_purchase newId uid plan) uid plan)
           = Inr session"
    and "truthy_str (meta_purchaseId session) = Some newId"
    and "meta_targetRole session = Some (plan_role plan)"
    and "distinct (map purchase_id (purchases w))"
    and "\<forall>p \<in> set (purchases w). externalId p \<noteq> Some (session_id session)"
  shows "linked session (purchases (snd (run (createCheckoutSession env newId body) w)))"
proof -
  have "purchases (snd (run (createCheckoutSession env newId body) w))
      = purchases w @ [apply_data (link_data session) (new_purchase newId uid plan)]"
    using run_checkout_valid [OF assms(1-7), of env] assms(8) by (simp add: Let_def)
  with checkout_links_session [OF assms(11,7,12,9,10)] show ?thesis by simp
qed

subsection \<open>Both entry points on a linked session\<close>






section \<open>Repeated and overlapping requests\<close>

subsection \<open>The first request for a pending purchase, and every later one\<close>

lemma first_call_settles:
  assumes "distinct (map purchase_id (purchases w))"
    and "verify_resolve s (purchases w) = Some p" and "webhook_resolve s (purchases w) = Some p"
    and "status p = PENDING" and "users w (userId p) = Some u"
    and "payment_status s = Paid \<or> session_status s = Some Complete"
    and "carries env s c"
    and "run (call_prog env c) w = (resp, w')"
  shows "settle_writes (trace w') = settle_writes (trace w) + 1
    \<and> distinct (map purchase_id (purchases w'))
    \<and> (\<exists>p'. verify_resolve s (purchases w') = Some p' \<and> webhook_resolve s (purchases w') = Some p'
           \<and> status p' = PAID \<and> purchase_id p' = purchase_id p)"
proof (cases c)
  case (WebhookCall x)
  with assms(7) have x: "x = Inr \<lparr>event_type = ''checkout.session.completed'', data_object = s\<rparr>"
    by (simp add: carries_def)
  from assms(3) obtain i r where ir: "truthy_str (meta_purchaseId s) = Some i"
      "meta_targetRole s = Some r" "find_purchase_by_id i (purchases w) = Some p"
    by (auto simp: webhook_resolve_def split: option.splits)
  have pid: "purchase_id p = i" using ir(3) by (rule find_purchase_by_id_Some)
  have np: "status p \<noteq> PAID" using assms(4) by simp
  from assms(8) WebhookCall x
  have r: "run (handleWebhook (Inr \<lparr>event_type = ''checkout.session.completed'', data_object = s\<rparr>)) w
      = (resp, w')" by (simp add: call_prog_def)
  note f = webhook_settles_fields [OF ir np r]
  let ?f = "apply_data (paid_data s p None)"
  have ps: "purchases w' = map (\<lambda>q. if purchase_id q = purchase_id p then ?f q else q) (purchases w)"
    using f(2) pid by simp
  have "settle_writes (trace w') = settle_writes (trace w) + 1"
    by (simp add: f(4) settle_writes_def paid_data_def split: option.split)
  moreover have "distinct (map purchase_id (purchases w'))"
  proof -
    have "map purchase_id (purchases w') = map purchase_id (purchases w)"
      unfolding ps by (rule distinct_map_update) simp
    with assms(1) show ?thesis by simp
  qed
  moreover have "verify_resolve s (purchases w') = Some (?f p)"
    unfolding ps by (rule verify_resolve_map [OF assms(1,2)]) (simp add: apply_data_def paid_data_def)
  moreover have "webhook_resolve s (purchases w') = Some (?f p)"
    unfolding ps by (rule webhook_resolve_map [OF assms(3)]) simp
  moreover have "status (?f p) = PAID" "purchase_id (?f p) = purchase_id p"
    by (simp_all add: apply_data_def paid_data_def)
  ultimately show ?thesis by blast
next
  case (VerifyCall q)
  with assms(7) have q: "q = Some (session_id s)" "session_id s \<noteq> []"
    "sessions_retrieve env (session_id s) = Inr s"
    by (simp_all add: carries_def)
  from assms(8) VerifyCall q
  have r: "run (verifySession env (Some (session_id s))) w = (resp, w')" by (simp add: call_prog_def)
  note f = verify_settles_fields [OF q(2,3) assms(2,5,6,1) r]
  have np: "status p \<noteq> PAID" using assms(4) by simp
  let ?f = "apply_data (paid_data s p (Some ''stripe''))"
  have ps: "purchases w' = map (\<lambda>q. if purchase_id q = purchase_id p then ?f q else q) (purchases w)"
    using f(2) np by simp
  have "settle_writes (trace w') = settle_writes (trace w) + 1"
    using np by (simp add: f(4) settle_writes_def paid_data_def)
  moreover have "distinct (map purchase_id (purchases w'))"
  proof -
    have "map purchase_id (purchases w') = map purchase_id (purchases w)"
      unfolding ps by (rule distinct_map_update) simp
    with assms(1) show ?thesis by simp
  qed
  moreover have "verify_resolve s (purchases w') = Some (?f p)"
    unfolding ps by (rule verify_resolve_map [OF assms(1,2)]) (simp add: apply_data_def paid_data_def)
  moreover have "webhook_resolve s (purchases w') = Some (?f p)"
    unfolding ps by (rule webhook_resolve_map [OF assms(3)]) simp
  moreover have "status (?f p) = PAID" "purchase_id (?f p) = purchase_id p"
    by (simp_all add: apply_data_def paid_data_def)
  ultimately show ?thesis by blast
qed

lemma later_call_effect:
  assumes "distinct (map purchase_id (purchases w))"
    and "verify_resolve s (purchases w) = Some p" and "webhook_resolve s (purchases w) = Some p"
    and "status p = PAID"
    and "carries env s c"
    and "run (call_prog env c) w = (resp, w')"
  shows "purchases w' = purchases w
     \<and> ((users w' = users w \<and> trace w' = trace w)
        \<or> (\<exists>u. users w (userId p) = Some u \<and> verify_upgrades (role u) (targetRole p)
               \<and> users w' = (users w)(userId p \<mapsto> u\<lparr>role := targetRole p\<rparr>)
               \<and> trace w' = trace w @ [UserUpdate (userId p) (targetRole p)]))"
proof (cases c)
  case (WebhookCall x)
  with assms(5) have x: "x = Inr \<lparr>event_type = ''checkout.session.completed'', data_object = s\<rparr>"
    by (simp add: carries_def)
  from assms(3) obtain i r where ir: "truthy_str (meta_purchaseId s) = Some i"
      "meta_targetRole s = Some r" "find_purchase_by_id i (purchases w) = Some p"
    by (auto simp: webhook_resolve_def split: option.splits)
  have "run (handleWebhook x) w = (Json_received, w)"
    unfolding x using ir assms(4) by (intro run_webhook_already_paid) auto
  with assms(6) WebhookCall show ?thesis by (simp add: call_prog_def)
next
  case (VerifyCall q)
  with assms(5) have q: "q = Some (session_id s)" "session_id s \<noteq> []"
    "sessions_retrieve env (session_id s) = Inr s"
    by (simp_all add: carries_def)
  from assms(6) VerifyCall q
  have r: "run (verifySession env (Some (session_id s))) w = (resp, w')" by (simp add: call_prog_def)
  have so: "str_or (Some (session_id s)) [] = session_id s" using q(2) by (simp add: str_or_def)
  show ?thesis
  proof (cases "users w (userId p) = None
        \<or> \<not> (payment_status s = Paid \<or> session_status s = Some Complete)")
    case True
    from run_verify_no_effect [OF so q(2,3) assms(2) True] r show ?thesis by simp
  next
    case False
    then obtain u where u: "users w (userId p) = Some u"
      and paid: "payment_status s = Paid \<or> session_status s = Some Complete" by auto
    note f = verify_settles_fields [OF q(2,3) assms(2) u paid assms(1) r]
    from f(2,3,4) assms(4) u show ?thesis by auto
  qed
qed

lemma later_calls_effect:
  assumes "distinct (map purchase_id (purchases w))"
    and "verify_resolve s (purchases w) = Some p" and "webhook_resolve s (purchases w) = Some p"
    and "status p = PAID"
    and "\<forall>c \<in> set cs. carries env s c"
  shows "purchases (run_calls env cs w) = purchases w
     \<and> settle_writes (trace (run_calls env cs w)) = settle_writes (trace w)
     \<and> ((users (run_calls env cs w) = users w
          \<and> role_writes (trace (run_calls env cs w)) = role_writes (trace w))
        \<or> (\<exists>u. users w (userId p) = Some u \<and> verify_upgrades (role u) (targetRole p)
               \<and> users (run_calls env cs w) = (users w)(userId p \<mapsto> u\<lparr>role := targetRole p\<rparr>)
               \<and> role_writes (trace (run_calls env cs w)) = role_writes (trace w) + 1))"
  using assms
proof (induction cs arbitrary: w)
  case Nil
  then show ?case by simp
next
  case (Cons c cs)
  obtain resp w1 where r: "run (call_prog env c) w = (resp, w1)"
    by (cases "run (call_prog env c) w")
  from Cons.prems(5) have c: "carries env s c" and cs: "\<forall>c \<in> set cs. carries env s c" by auto
  note e = later_call_effect [OF Cons.prems(1-4) c r]
  from e have ps: "purchases w1 = purchases w" by simp
  note ih = Cons.IH [of w1, unfolded ps, OF Cons.prems(1-4) cs]
  have rc: "run_calls env (c # cs) w = run_calls env cs w1" using r by simp
  from e consider (same) "users w1 = users w" "trace w1 = trace w"
    | (up) u where "users w (userId p) = Some u" "verify_upgrades (role u) (targetRole p)"
        "users w1 = (users w)(userId p \<mapsto> u\<lparr>role := targetRole p\<rparr>)"
        "trace w1 = trace w @ [UserUpdate (userId p) (targetRole p)]"
    by blast
  then show ?case
  proof cases
    case same
    with ih show ?thesis unfolding rc by simp
  next
    case up
    have no: "\<not> verify_upgrades (role (u\<lparr>role := targetRole p\<rparr>)) (targetRole p)"
      by (simp add: verify_upgrades_def)
    from ih up(3) no have "users (run_calls env cs w1) = users w1
        \<and> role_writes (trace (run_calls env cs w1)) = role_writes (trace w1)"
      by auto
    with ih up show ?thesis unfolding rc
      by (simp add: settle_writes_def role_writes_def)
  qed
qed

text \<open>
  Claim C1, as amended. In a store whose purchase ids are distinct (they are the
  primary key), let a session resolve, in both endpoints, to one PENDING purchase
  whose user is stored, and let the gateway report it paid. Of any number of
  requests carrying that session and run one after another (each to its response
  before the next starts), the first writes the purchase PAID, and the trace of the
  whole sequence holds that one settling write: every later request finds the
  purchase PAID and leaves the purchases as the first left them. The write is guarded
  by the status the request read before, not by a condition of the write itself.
\<close>

theorem C1_sequential_requests_settle_once:
  assumes "distinct (map purchase_id (purchases w))"
    and "verify_resolve s (purchases w) = Some p" and "webhook_resolve s (purchases w) = Some p"
    and "status p = PENDING" and "users w (userId p) = Some u"
    and "payment_status s = Paid \<or> session_status s = Some Complete"
    and "\<forall>c \<in> set (c # cs). carries env s c"
  shows "settle_writes (trace (snd (run (call_prog env c) w))) = settle_writes (trace w) + 1
     \<and> settle_writes (trace (run_calls env (c # cs) w)) = settle_writes (trace w) + 1
     \<and> purchases (run_calls env (c # cs) w) = purchases (snd (run (call_prog env c) w))
     \<and> (\<exists>p'. verify_resolve s (purchases (run_calls env (c # cs) w)) = Some p'
            \<and> webhook_resolve s (purchases (run_calls env (c # cs) w)) = Some p'
            \<and> purchase_id p' = purchase_id p \<and> status p' = PAID)"
proof -
  obtain resp w1 where r: "run (call_prog env c) w = (resp, w1)"
    by (cases "run (call_prog env c) w")
  from assms(7) have c: "carries env s c" and cs: "\<forall>c \<in> set cs. carries env s c" by auto
  from first_call_settles [OF assms(1-6) c r]
  obtain p' where one: "settle_writes (trace w1) = settle_writes (trace w) + 1"
    and d: "distinct (map purchase_id (purchases w1))"
    and p': "verify_resolve s (purchases w1) = Some p'" "webhook_resolve s (purchases w1) = Some p'"
       "status p' = PAID" "purchase_id p' = purchase_id p"
    by blast
  note rest = later_calls_effect [OF d p'(1,2,3) cs]
  have rc: "run_calls env (c # cs) w = run_calls env cs w1" using r by simp
  from rest one p' r show ?thesis unfolding rc by simp
qed

theorem C1_sequential_requests_settle_once_witness:
  "distinct (map purchase_id (purchases world_pending))
   \<and> verify_resolve gold_session (purchases world_pending) = Some gold_purchase
   \<and> webhook_resolve gold_session (purchases world_pending) = Some gold_purchase
   \<and> status gold_purchase = PENDING \<and> users world_pending (userId gold_purchase) = Some alice
   \<and> payment_status gold_session = Paid
   \<and> carries env_up gold_session (WebhookCall (Inr gold_event))
   \<and> carries env_up gold_session (VerifyCall (Some ''cs_1''))
   \<and> settle_writes (trace (snd (run (call_prog env_up (WebhookCall (Inr gold_event)))
                                 world_pending))) = 1
   \<and> settle_writes (trace (run_calls env_up
        [WebhookCall (Inr gold_event), VerifyCall (Some ''cs_1''), VerifyCall (Some ''cs_1'')]
        world_pending)) = 1
   \<and> purchases (run_calls env_up
        [WebhookCall (Inr gold_event), VerifyCall (Some ''cs_1''), VerifyCall (Some ''cs_1'')]
        world_pending)
       = purchases (snd (run (call_prog env_up (WebhookCall (Inr gold_event))) world_pending))"
proof -
  have h: "distinct (map purchase_id (purchases world_pending))"
    "verify_resolve gold_session (purchases world_pending) = Some gold_purchase"
    "webhook_resolve gold_session (purchases world_pending) = Some gold_purchase"
    "status gold_purchase = PENDING" "users world_pending (userId gold_purchase) = Some alice"
    "payment_status gold_session = Paid \<or> session_status gold_session = Some Complete"
    "\<forall>c \<in> set (WebhookCall (Inr gold_event) # [VerifyCall (Some ''cs_1''),
                   VerifyCall (Some ''cs_1'')]). carries env_up gold_session c"
    by (simp_all add: eval_defs example_defs)
  have t: "settle_writes (trace world_pending) = 0" "payment_status gold_session = Paid"
    by (simp_all add: world_pending_def settle_writes_def gold_session_def)
  from C1_sequential_requests_settle_once [OF h] h t
  show ?thesis by simp
qed

text \<open>
  Claim C1 as the specification states it fails when the requests overlap. The webhook
  (request 0) and the verify endpoint (request 1) receive Alice's paid session while her
  purchase is PENDING. The verify request reads the purchase and the user, the webhook
  reads the purchase and settles it, and then the verify request, which still holds
  the PENDING row, settles it again: two settling writes, and the verify response
  reports that it marked the purchase paid.
\<close>

theorem C1_overlapping_requests_settle_twice_counterexample:
  "status gold_purchase = PENDING
   \<and> carries env_up gold_session (WebhookCall (Inr gold_event))
   \<and> carries env_up gold_session (VerifyCall (Some ''cs_1''))
   \<and> trace (fst (run_schedule [Suc 0, Suc 0, Suc 0, 0, 0, Suc 0, 0, 0, 0, Suc 0, Suc 0]
        (world_pending, [handleWebhook (Inr gold_event), verifySession env_up (Some ''cs_1'')])))
       = [PurchaseUpdate ''pur_1''
            \<lparr>data_status = Some PAID, data_amount = Some 129900, data_currency = Some ''THB'',
             data_externalId = Some ''cs_1'', data_gateway = None\<rparr>,
          PurchaseUpdate ''pur_1''
            \<lparr>data_status = Some PAID, data_amount = Some 129900, data_currency = Some ''THB'',
             data_externalId = Some ''cs_1'', data_gateway = Some ''stripe''\<rparr>,
          UserUpdate 1 USER_GOLD, UserUpdate 1 USER_GOLD]
   \<and> settle_writes (trace (fst (run_schedule
        [Suc 0, Suc 0, Suc 0, 0, 0, Suc 0, 0, 0, 0, Suc 0, Suc 0]
        (world_pending, [handleWebhook (Inr gold_event), verifySession env_up (Some ''cs_1'')]))))
       = 2
   \<and> snd (run_schedule [Suc 0, Suc 0, Suc 0, 0, 0, Suc 0, 0, 0, 0, Suc 0, Suc 0]
        (world_pending, [handleWebhook (Inr gold_event), verifySession env_up (Some ''cs_1'')]))
       = [Done Json_received,
          Done (Json_verify
            \<lparr>body_sessionId = ''cs_1'', body_payment_status = Paid,
             body_amount_total = Some 129900, body_currency = Some ''THB'',
             body_purchase = Some (''pur_1'', PAID, USER_GOLD),
             body_user = Some (alice\<lparr>role := USER_GOLD\<rparr>),
             didMarkPaid = True, didUpgrade = True, upgradedTo = Some USER_GOLD\<rparr>)]"
  by (simp add: eval_defs example_defs prim_defs)

subsection \<open>What a request can do to a role\<close>

lemma webhook_role_effect:
  assumes "run (handleWebhook x) w = (resp, w')"
  shows "users w' = users w
     \<or> (\<exists>ev p u r. x = Inr ev \<and> webhook_resolve (data_object ev) (purchases w) = Some p
           \<and> meta_targetRole (data_object ev) = Some r
           \<and> users w (userId p) = Some u \<and> webhook_upgrades (role u) r
           \<and> users w' = (users w)(userId p \<mapsto> u\<lparr>role := r\<rparr>))"
proof (cases x)
  case (Inl msg)
  with assms show ?thesis by (auto simp: run_webhook_bad_signature)
next
  case (Inr ev)
  show ?thesis
  proof (cases "event_type ev = ''checkout.session.completed''")
    case False
    with assms Inr show ?thesis by (simp add: run_webhook_other_event)
  next
    case True
    note ty = this
    show ?thesis
    proof (cases "truthy_str (meta_purchaseId (data_object ev)) = None
          \<or> meta_targetRole (data_object ev) = None")
      case True
      from run_webhook_missing_metadata [OF ty True] assms Inr show ?thesis by auto
    next
      case False
      then obtain i r where ir: "truthy_str (meta_purchaseId (data_object ev)) = Some i"
        "meta_targetRole (data_object ev) = Some r" by auto
      show ?thesis
      proof (cases "find_purchase_by_id i (purchases w)")
        case None
        from run_webhook_not_found [OF ty ir None] assms Inr show ?thesis by simp
      next
        case (Some p)
        show ?thesis
        proof (cases "status p = PAID")
          case True
          from run_webhook_already_paid [OF ty ir Some True] assms Inr show ?thesis by simp
        next
          case False
          have ev: "ev = \<lparr>event_type = ''checkout.session.completed'', data_object = data_object ev\<rparr>"
            using ty by (cases ev) simp
          have r: "run (handleWebhook (Inr \<lparr>event_type = ''checkout.session.completed'',
                     data_object = data_object ev\<rparr>)) w = (resp, w')"
            using assms Inr ev by simp
          note f = webhook_settles_fields [OF ir Some False r]
          have res: "webhook_resolve (data_object ev) (purchases w) = Some p"
            using ir Some by (simp add: webhook_resolve_def)
          show ?thesis
          proof (cases "users w (userId p)")
            case None
            with f(3) show ?thesis by simp
          next
            case (Some u)
            with f(3) res ir(2) Inr show ?thesis by (cases "webhook_upgrades (role u) r") auto
          qed
        qed
      qed
    qed
  qed
qed





end
